theory Spec2Isabelle
  imports Complex_Main "HOL-Library.Sublist"
begin

section \<open>JavaScript values and string primitives\<close>

text \<open>
  The module under study is \<^verbatim>\<open>executeClaudeCommand\<close>, which exists in two files of the
  repository: \<^verbatim>\<open>src/solve.claude-execution.lib.mjs\<close> (the child is started with
  \<^verbatim>\<open>spawn('sh', ['-c', ...])\<close>) and a second file of the same module that runs the child through
  the \<^verbatim>\<open>command-stream\<close> function \<^verbatim>\<open>$\<close>. Both are embedded below; where the two files differ, the
  definitions of the second file carry the suffix \<open>_cs\<close>.

  A JavaScript string is a list of code units; the embedding covers the code units below 256
  (Isabelle's \<^typ>\<open>char\<close>). A value produced by \<^verbatim>\<open>JSON.parse\<close> or read from a property is a
  \<open>jsval\<close>; an object keeps its properties as an association list read with \<^const>\<open>map_of\<close>
  (a key that the JSON text repeats is listed once, with its last value).
\<close>

datatype jsval =
    JUndefined
  | JNull
  | JBool bool
  | JNum real
  | JStr string
  | JArr "jsval list"
  | JObj "(string \<times> jsval) list"

text \<open>ToBoolean, as used by \<^verbatim>\<open>if (v)\<close>, \<^verbatim>\<open>!v\<close>, \<^verbatim>\<open>a && b\<close> and \<^verbatim>\<open>a || b\<close>.\<close>

fun truthy :: "jsval \<Rightarrow> bool" where
  "truthy JUndefined = False"
| "truthy JNull = False"
| "truthy (JBool b) = b"
| "truthy (JNum r) = (r \<noteq> 0)"
| "truthy (JStr s) = (s \<noteq> [])"
| "truthy (JArr xs) = True"
| "truthy (JObj kvs) = True"

text \<open>Reading a property of \<^verbatim>\<open>null\<close> or \<^verbatim>\<open>undefined\<close> throws a TypeError.\<close>

fun nullish :: "jsval \<Rightarrow> bool" where
  "nullish JUndefined = True"
| "nullish JNull = True"
| "nullish v = False"

text \<open>
  \<^verbatim>\<open>v.k\<close> for a value that is not nullish, for the property names the module reads
  (\<^verbatim>\<open>session_id\<close>, \<^verbatim>\<open>type\<close>, \<^verbatim>\<open>text\<close>, \<^verbatim>\<open>name\<close>, \<^verbatim>\<open>input\<close>, \<^verbatim>\<open>command\<close>, \<^verbatim>\<open>path\<close>, \<^verbatim>\<open>error\<close>,
  \<^verbatim>\<open>output\<close>, \<^verbatim>\<open>role\<close>, \<^verbatim>\<open>length\<close>): an object answers with its own property, strings and arrays
  have a \<^verbatim>\<open>length\<close>, and everything else is \<^verbatim>\<open>undefined\<close>.
\<close>

fun js_get :: "jsval \<Rightarrow> string \<Rightarrow> jsval" where
  "js_get (JObj kvs) k = (case map_of kvs k of None \<Rightarrow> JUndefined | Some v \<Rightarrow> v)"
| "js_get (JStr s) k = (if k = ''length'' then JNum (real (length s)) else JUndefined)"
| "js_get (JArr xs) k = (if k = ''length'' then JNum (real (length xs)) else JUndefined)"
| "js_get v k = JUndefined"

text \<open>\<^verbatim>\<open>a || b\<close>.\<close>

definition js_or :: "jsval \<Rightarrow> jsval \<Rightarrow> jsval" where
  "js_or a b = (if truthy a then a else b)"

text \<open>\<^verbatim>\<open>s.split(sep)\<close> for a one-character separator: never empty, \<^verbatim>\<open>''.split(sep)\<close> is \<^verbatim>\<open>['']\<close>.\<close>

fun js_split :: "char \<Rightarrow> string \<Rightarrow> string list" where
  "js_split sep [] = [[]]"
| "js_split sep (c # cs) =
     (if c = sep then [] # js_split sep cs
      else (case js_split sep cs of [] \<Rightarrow> [[c]] | l # ls \<Rightarrow> (c # l) # ls))"

definition newline :: char where
  "newline = CHR 0x0A"

definition split_nl :: "string \<Rightarrow> string list" where
  "split_nl s = js_split newline s"

text \<open>\<^verbatim>\<open>parts.join(sep)\<close>, used to state what splitting loses: nothing but the separator.\<close>

fun js_join :: "char \<Rightarrow> string list \<Rightarrow> string" where
  "js_join sep [] = []"
| "js_join sep [l] = l"
| "js_join sep (l # ls) = l @ sep # js_join sep ls"

text \<open>The white space \<^verbatim>\<open>trim()\<close> strips, among the code units below 256.\<close>

definition is_space :: "char \<Rightarrow> bool" where
  "is_space c = (c \<in> set [CHR 0x09, CHR 0x0A, CHR 0x0B, CHR 0x0C, CHR 0x0D, CHR 0x20, CHR 0xA0])"

definition trim :: "string \<Rightarrow> string" where
  "trim s = rev (dropWhile is_space (rev (dropWhile is_space s)))"

text \<open>\<^verbatim>\<open>s.includes(needle)\<close> on strings.\<close>

fun str_includes :: "string \<Rightarrow> string \<Rightarrow> bool" where
  "str_includes [] needle = (needle = [])"
| "str_includes (c # cs) needle = (take (length needle) (c # cs) = needle \<or> str_includes cs needle)"

text \<open>\<^verbatim>\<open>s.replace(/\n/g, '\n   ')\<close>.\<close>

fun indent_newlines :: "string \<Rightarrow> string" where
  "indent_newlines [] = []"
| "indent_newlines (c # cs) =
     (if c = newline then newline # CHR 0x20 # CHR 0x20 # CHR 0x20 # indent_newlines cs
      else c # indent_newlines cs)"

datatype error = TypeError | Error string

text \<open>
  \<^verbatim>\<open>v.includes(needle)\<close> on the value held by \<^verbatim>\<open>lastMessage\<close>: a string searches for a substring,
  an array for an element, and any other value has no such method, so the call throws.
\<close>

fun js_includes :: "jsval \<Rightarrow> string \<Rightarrow> error + bool" where
  "js_includes (JStr s) needle = Inr (str_includes s needle)"
| "js_includes (JArr xs) needle = Inr (JStr needle \<in> set xs)"
| "js_includes v needle = Inl TypeError"

text \<open>
  The built-ins whose definition lies outside the repository are parameters of the embedding:
  \<^verbatim>\<open>JSON.parse\<close> (\<open>None\<close> when it throws a SyntaxError), \<^verbatim>\<open>JSON.stringify\<close>, the conversion
  ToNumber on strings, arrays and objects (\<open>None\<close> for NaN), and \<^verbatim>\<open>path.join\<close>.
\<close>

record runtime =
  JSON_parse :: "string \<Rightarrow> jsval option"
  JSON_stringify :: "jsval \<Rightarrow> string"
  ToNumber :: "jsval \<Rightarrow> real option"
  path_join :: "string \<Rightarrow> string \<Rightarrow> string"

fun js_ToNumber :: "runtime \<Rightarrow> jsval \<Rightarrow> real option" where
  "js_ToNumber rt JUndefined = None"
| "js_ToNumber rt JNull = Some 0"
| "js_ToNumber rt (JBool b) = Some (if b then 1 else 0)"
| "js_ToNumber rt (JNum r) = Some r"
| "js_ToNumber rt v = ToNumber rt v"

text \<open>\<^verbatim>\<open>v < k\<close> for a number \<open>k\<close>: false when \<open>v\<close> converts to NaN.\<close>

definition js_less :: "runtime \<Rightarrow> jsval \<Rightarrow> real \<Rightarrow> bool" where
  "js_less rt v k = (case js_ToNumber rt v of None \<Rightarrow> False | Some r \<Rightarrow> r < k)"

section \<open>Parameters, closure variables and the log\<close>

record argv =
  model :: string
  verbose :: bool
  resume :: "string option"
  fork :: bool
  attachLogs :: bool
  url :: string

record params =
  tempDir :: string
  branchName :: string
  prompt :: string
  systemPrompt :: string
  escapedPrompt :: string
  escapedSystemPrompt :: string
  argv :: argv
  forkedRepo :: "string option"
  feedbackLines :: "string list"
  claudePath :: string

text \<open>
  The collaborators \<^verbatim>\<open>log\<close>, \<^verbatim>\<open>formatAligned\<close> and \<^verbatim>\<open>getResourceSnapshot\<close> are taken to return
  normally. Of the calls of \<^verbatim>\<open>log\<close>, the embedding records those that carry a \<^verbatim>\<open>stream\<close> or a
  \<^verbatim>\<open>level\<close> option, in call order: a \<open>LogStream\<close> entry holds the stream tag and the value
  interpolated into the message, a \<open>LogLevel\<close> entry the level and which message it is.
\<close>

datatype notice =
    FailedToExecute string
  | CommandFailed error
  | RateLimitReached
  | ContextLengthExceeded
  | FailedWithExitCode "int option" "string option"

datatype log_entry = LogStream string jsval | LogLevel string notice

record vars =
  commandFailed :: bool
  sessionId :: jsval
  limitReached :: bool
  messageCount :: nat
  toolUseCount :: nat
  lastMessage :: jsval
  logged :: "log_entry list"

definition initial :: vars where
  "initial = \<lparr>commandFailed = False, sessionId = JNull, limitReached = False,
     messageCount = 0, toolUseCount = 0, lastMessage = JStr [], logged = []\<rparr>"

definition log_call :: "log_entry \<Rightarrow> vars \<Rightarrow> vars" where
  "log_call e st = st\<lparr>logged := logged st @ [e]\<rparr>"

section \<open>Decoding one line of stdout\<close>

text \<open>
  The body of \<^verbatim>\<open>for (const line of lines)\<close>, the same text in both files. Inside \<^verbatim>\<open>try\<close>:
  \<^verbatim>\<open>if (!sessionId && data.session_id) sessionId = data.session_id\<close>.
\<close>

definition capture_session :: "jsval \<Rightarrow> vars \<Rightarrow> vars" where
  "capture_session data st =
     (if \<not> truthy (sessionId st) \<and> truthy (js_get data ''session_id'')
      then st\<lparr>sessionId := js_get data ''session_id''\<rparr> else st)"

definition count_event :: "jsval \<Rightarrow> vars \<Rightarrow> vars" where
  "count_event data st =
     (if js_get data ''type'' = JStr ''message'' then st\<lparr>messageCount := messageCount st + 1\<rparr>
      else if js_get data ''type'' = JStr ''tool_use'' then st\<lparr>toolUseCount := toolUseCount st + 1\<rparr>
      else st)"

definition tool_detail :: "bool \<Rightarrow> jsval \<Rightarrow> vars \<Rightarrow> vars" where
  "tool_detail verb data st =
     (let input = js_get data ''input''; name = js_get data ''name'' in
      if verb \<and> truthy input then
        (if name = JStr ''bash'' \<and> truthy (js_get input ''command'')
           then log_call (LogStream ''tool-detail'' (js_get input ''command'')) st
         else if name = JStr ''write'' \<and> truthy (js_get input ''path'')
           then log_call (LogStream ''tool-detail'' (js_get input ''path'')) st
         else if name = JStr ''read'' \<and> truthy (js_get input ''path'')
           then log_call (LogStream ''tool-detail'' (js_get input ''path'')) st
         else st)
      else st)"

text \<open>
  The chain "Format the output nicely". Its one throwing call is \<^verbatim>\<open>data.output.replace(...)\<close>
  on an output that is not a string; nothing has been assigned or logged by the chain then.
\<close>

definition format_event :: "runtime \<Rightarrow> bool \<Rightarrow> jsval \<Rightarrow> vars \<Rightarrow> error + vars" where
  "format_event rt verb data st =
     (let ty = js_get data ''type'' in
      if ty = JStr ''text'' then
        (if truthy (js_get data ''text'')
         then Inr ((log_call (LogStream ''claude'' (js_get data ''text'')) st)
                     \<lparr>lastMessage := js_get data ''text''\<rparr>)
         else Inr st)
      else if ty = JStr ''tool_use'' \<and> truthy (js_get data ''name'') then
        Inr (tool_detail verb data (log_call (LogStream ''tool'' (js_get data ''name'')) st))
      else if ty = JStr ''tool_result'' \<and> verb then
        (if truthy (js_get data ''error'')
           then Inr (log_call (LogStream ''tool-error'' (js_get data ''error'')) st)
         else if truthy (js_get data ''output'')
                 \<and> js_less rt (js_get (js_get data ''output'') ''length'') 200
           then (case js_get data ''output'' of
                   JStr s \<Rightarrow> Inr (log_call (LogStream ''tool-result'' (JStr (indent_newlines s))) st)
                 | _ \<Rightarrow> Inl TypeError)
         else Inr st)
      else if ty = JStr ''error'' then
        Inr ((log_call (LogStream ''error''
                 (js_or (js_get data ''error'') (JStr (JSON_stringify rt data)))) st)
               \<lparr>lastMessage := js_or (js_get data ''error'') (JStr (JSON_stringify rt data))\<rparr>)
      else if ty = JStr ''message'' \<and> js_get data ''role'' = JStr ''assistant'' \<and> verb then
        Inr (log_call (LogStream ''meta'' (JNum (real (messageCount st)))) st)
      else Inr st)"

text \<open>The \<^verbatim>\<open>catch\<close> block: the line is logged raw and becomes \<^verbatim>\<open>lastMessage\<close>.\<close>

definition raw_line :: "string \<Rightarrow> vars \<Rightarrow> vars" where
  "raw_line line st =
     (if trim line \<noteq> [] \<and> \<not> str_includes line ''node:internal''
      then (log_call (LogStream ''raw'' (JStr line)) st)\<lparr>lastMessage := JStr line\<rparr>
      else st)"

text \<open>
  \<^verbatim>\<open>try { const data = JSON.parse(line); ... } catch { ... }\<close>. A parse error and a property read
  of \<^verbatim>\<open>null\<close> reach the \<^verbatim>\<open>catch\<close> block with the variables unchanged; a throw in the chain
  reaches it after the session id and the counters were updated.
\<close>

definition decode_line :: "runtime \<Rightarrow> bool \<Rightarrow> string \<Rightarrow> vars \<Rightarrow> vars" where
  "decode_line rt verb line st =
     (case JSON_parse rt line of
        None \<Rightarrow> raw_line line st
      | Some data \<Rightarrow>
          if nullish data then raw_line line st
          else (let st' = count_event data (capture_session data st) in
                case format_event rt verb data st' of
                  Inl e \<Rightarrow> raw_line line st'
                | Inr st'' \<Rightarrow> st''))"

text \<open>In the spawn file the loop body starts with \<^verbatim>\<open>if (!line.trim()) continue\<close>.\<close>

definition process_line :: "runtime \<Rightarrow> bool \<Rightarrow> string \<Rightarrow> vars \<Rightarrow> vars" where
  "process_line rt verb line st = (if trim line = [] then st else decode_line rt verb line st)"

definition process_lines :: "runtime \<Rightarrow> bool \<Rightarrow> string list \<Rightarrow> vars \<Rightarrow> vars" where
  "process_lines rt verb lines st = foldl (\<lambda>s line. process_line rt verb line s) st lines"

section \<open>Classification and the returned object\<close>

text \<open>\<^verbatim>\<open>v.includes(a) || v.includes(b) || ...\<close>, evaluated left to right.\<close>

fun includes_any :: "jsval \<Rightarrow> string list \<Rightarrow> error + bool" where
  "includes_any v [] = Inr False"
| "includes_any v (n # ns) =
     (case js_includes v n of
        Inl e \<Rightarrow> Inl e
      | Inr found \<Rightarrow> if found then Inr True else includes_any v ns)"

definition rate_limit_markers :: "string list" where
  "rate_limit_markers = [''rate_limit_exceeded'', ''You have exceeded your rate limit'', ''rate limit'']"

text \<open>
  The block guarded by \<^verbatim>\<open>code !== 0\<close>, the same in both files (one path of the second file
  logs no signal). A throwing \<^verbatim>\<open>lastMessage.includes\<close> leaves it with \<^verbatim>\<open>commandFailed\<close>
  already set.
\<close>

definition classify_failure ::
    "int option \<Rightarrow> string option \<Rightarrow> vars \<Rightarrow> error + vars" where
  "classify_failure code signal st =
     (let st1 = st\<lparr>commandFailed := True\<rparr> in
      case includes_any (lastMessage st1) rate_limit_markers of
        Inl e \<Rightarrow> Inl e
      | Inr limited \<Rightarrow>
          if limited
          then Inr (log_call (LogLevel ''warning'' RateLimitReached) (st1\<lparr>limitReached := True\<rparr>))
          else (case js_includes (lastMessage st1) ''context_length_exceeded'' of
                  Inl e \<Rightarrow> Inl e
                | Inr exceeded \<Rightarrow>
                    if exceeded
                    then Inr (log_call (LogLevel ''error'' ContextLengthExceeded) st1)
                    else Inr (log_call (LogLevel ''error'' (FailedWithExitCode code signal)) st1)))"

text \<open>The object literal of the three \<^verbatim>\<open>return\<close> statements.\<close>

definition result_object :: "bool \<Rightarrow> vars \<Rightarrow> jsval" where
  "result_object ok st =
     JObj [(''success'', JBool ok),
           (''sessionId'', sessionId st),
           (''limitReached'', JBool (limitReached st)),
           (''messageCount'', JNum (real (messageCount st))),
           (''toolUseCount'', JNum (real (toolUseCount st)))]"

text \<open>\<^verbatim>\<open>if (commandFailed) { ... return {success: false, ...} } ... return {success: true, ...}\<close>.\<close>

definition finish :: "vars \<Rightarrow> jsval" where
  "finish st = (if commandFailed st then result_object False st else result_object True st)"

text \<open>What a call leaves behind: the recorded log calls, and the returned object or the exception.\<close>

record outcome =
  trace :: "log_entry list"
  returned :: "error + jsval"

section \<open>The spawn file\<close>

text \<open>
  \<^verbatim>\<open>claudeArgs\<close> and \<^verbatim>\<open>shellCommand\<close>, the second argument of
  \<^verbatim>\<open>spawn('sh', ['-c', shellCommand], {cwd: tempDir, ...})\<close>.
\<close>

definition claudeArgs_base :: "'a params_scheme \<Rightarrow> string" where
  "claudeArgs_base p =
     (let args = ''--output-format stream-json --verbose --dangerously-skip-permissions --model ''
                   @ model (argv p) in
      case resume (argv p) of
        None \<Rightarrow> args
      | Some r \<Rightarrow> if r = [] then args else ''--resume '' @ r @ '' '' @ args)"

definition claudeArgs :: "params \<Rightarrow> string" where
  "claudeArgs p =
     claudeArgs_base p @ '' -p \"'' @ escapedPrompt p @ ''\" --append-system-prompt \"''
       @ escapedSystemPrompt p @ ''\"''"

definition shellCommand :: "params \<Rightarrow> string" where
  "shellCommand p = claudePath p @ '' '' @ claudeArgs p @ '' | jq -c .''"

definition spawn_args :: "params \<Rightarrow> string \<times> string list \<times> string" where
  "spawn_args p = (''sh'', [''-c'', shellCommand p], tempDir p)"

text \<open>
  What the child does: it fails to start (the \<^verbatim>\<open>error\<close> event), or it delivers \<^verbatim>\<open>data\<close> events
  on its two pipes, each chunk already turned into a string by \<^verbatim>\<open>toString()\<close>, then exits with
  a code or a signal and closes.
\<close>

datatype chunk = Stdout string | Stderr string

datatype child = SpawnError string | Closed "chunk list" "int option" "string option"

text \<open>
  The variables a call of \<^verbatim>\<open>executeCommand\<close> adds to those of \<^verbatim>\<open>executeClaudeCommand\<close>, which
  its handlers assign as well (\<open>outer\<close>).
\<close>

record spawn_vars =
  outer :: vars
  stdoutBuffer :: string
  stderrBuffer :: string
  exitCode :: "int option"
  exitSignal :: "string option"

definition initial_spawn :: spawn_vars where
  "initial_spawn =
     \<lparr>outer = initial, stdoutBuffer = [], stderrBuffer = [], exitCode = None, exitSignal = None\<rparr>"

text \<open>
  \<^verbatim>\<open>stdoutBuffer += output; const lines = stdoutBuffer.split('\n'); stdoutBuffer = lines.pop() || ''\<close>:
  the complete lines, and the fragment kept back.
\<close>

definition take_lines :: "string \<Rightarrow> string \<Rightarrow> string list \<times> string" where
  "take_lines buffer output =
     (let lines = split_nl (buffer @ output) in
      (butlast lines, if lines = [] then [] else last lines))"

definition stdout_on_data :: "runtime \<Rightarrow> bool \<Rightarrow> string \<Rightarrow> spawn_vars \<Rightarrow> spawn_vars" where
  "stdout_on_data rt verb output st =
     (let (lines, rest) = take_lines (stdoutBuffer st) output in
      st\<lparr>stdoutBuffer := rest, outer := process_lines rt verb lines (outer st)\<rparr>)"

definition stderr_on_data :: "string \<Rightarrow> spawn_vars \<Rightarrow> spawn_vars" where
  "stderr_on_data errorOutput st =
     st\<lparr>stderrBuffer := stderrBuffer st @ errorOutput,
        outer := (if errorOutput \<noteq> []
                  then log_call (LogStream ''stderr'' (JStr errorOutput)) (outer st)
                  else outer st)\<rparr>"

fun on_data :: "runtime \<Rightarrow> bool \<Rightarrow> chunk \<Rightarrow> spawn_vars \<Rightarrow> spawn_vars" where
  "on_data rt verb (Stdout output) st = stdout_on_data rt verb output st"
| "on_data rt verb (Stderr errorOutput) st = stderr_on_data errorOutput st"

definition on_exit :: "int option \<Rightarrow> string option \<Rightarrow> spawn_vars \<Rightarrow> spawn_vars" where
  "on_exit code signal st = st\<lparr>exitCode := code, exitSignal := signal\<rparr>"

text \<open>
  The \<^verbatim>\<open>close\<close> handler, "Process any remaining buffered stdout": it reads \<^verbatim>\<open>text\<close> and
  \<^verbatim>\<open>error\<close> events only, and nothing of the stderr buffer.
\<close>

definition flush_stdout :: "runtime \<Rightarrow> string \<Rightarrow> vars \<Rightarrow> vars" where
  "flush_stdout rt buffer st =
     (if trim buffer \<noteq> [] then
        (case JSON_parse rt buffer of
           None \<Rightarrow> raw_line buffer st
         | Some data \<Rightarrow>
             if nullish data then raw_line buffer st
             else if js_get data ''type'' = JStr ''text'' \<and> truthy (js_get data ''text'') then
               (log_call (LogStream ''claude'' (js_get data ''text'')) st)
                 \<lparr>lastMessage := js_get data ''text''\<rparr>
             else if js_get data ''type'' = JStr ''error'' then
               (log_call (LogStream ''error''
                    (js_or (js_get data ''error'') (JStr (JSON_stringify rt data)))) st)
                 \<lparr>lastMessage := js_or (js_get data ''error'') (JStr (JSON_stringify rt data))\<rparr>
             else st)
      else st)"

definition on_close :: "runtime \<Rightarrow> spawn_vars \<Rightarrow> spawn_vars" where
  "on_close rt st = st\<lparr>outer := flush_stdout rt (stdoutBuffer st) (outer st)\<rparr>"

text \<open>
  \<^verbatim>\<open>executeCommand\<close>: the promise is rejected with the error of the \<^verbatim>\<open>error\<close> event, or resolved
  when the child closes.
\<close>

fun executeCommand :: "runtime \<Rightarrow> bool \<Rightarrow> child \<Rightarrow> string + spawn_vars" where
  "executeCommand rt verb (SpawnError msg) = Inl msg"
| "executeCommand rt verb (Closed chunks code signal) =
     Inr (on_close rt (on_exit code signal
            (foldl (\<lambda>st c. on_data rt verb c st) initial_spawn chunks)))"

text \<open>
  The listeners are \<^verbatim>\<open>async\<close> functions that nobody awaits, and they assign \<^verbatim>\<open>lastMessage\<close>
  after \<^verbatim>\<open>await log(...)\<close>. \<^const>\<open>executeCommand\<close> is the run in which every handler has come to
  its end before the next event is delivered, as it is when \<^verbatim>\<open>log\<close> does not suspend longer than
  that. With a \<^verbatim>\<open>log\<close> that does, the promise can resolve while a handler is still suspended,
  and the variables then hold what the handlers have assigned so far. The rest of
  \<^verbatim>\<open>executeClaudeCommand\<close>, from \<^verbatim>\<open>if (commandResult.code !== 0)\<close> to the two last \<^verbatim>\<open>return\<close>
  statements, is therefore a function of its own, of the exit status and of the variables as it
  finds them: \<^verbatim>\<open>commandFailed\<close> and \<^verbatim>\<open>limitReached\<close> are assigned here and nowhere else. (A
  handler that is still suspended can assign \<^verbatim>\<open>sessionId\<close>, the counters and \<^verbatim>\<open>lastMessage\<close> while
  this part awaits its own log calls; what is proved of \<open>after_command\<close> on any state concerns the
  two flags, the shape of the object and its own log call, which are out of a handler's reach.)
\<close>

definition after_command :: "int option \<Rightarrow> string option \<Rightarrow> vars \<Rightarrow> outcome" where
  "after_command code signal st =
     (if code \<noteq> Some 0 then
        (case classify_failure code signal st of
           Inl e \<Rightarrow> \<lparr>trace = logged st, returned = Inl e\<rparr>
         | Inr st' \<Rightarrow> \<lparr>trace = logged st', returned = Inr (finish st')\<rparr>)
      else \<lparr>trace = logged st, returned = Inr (finish st)\<rparr>)"

definition executeClaudeCommand :: "runtime \<Rightarrow> params \<Rightarrow> child \<Rightarrow> outcome" where
  "executeClaudeCommand rt p ch =
     (case executeCommand rt (verbose (argv p)) ch of
        Inl msg \<Rightarrow>
          \<lparr>trace = [LogLevel ''error'' (FailedToExecute msg)],
           returned = Inr (result_object False initial)\<rparr>
      | Inr commandResult \<Rightarrow>
          after_command (exitCode commandResult) (exitSignal commandResult) (outer commandResult))"

section \<open>The command-stream file\<close>

text \<open>The parameter \<^verbatim>\<open>$\<close>: falsy, a value that is no function, or a function.\<close>

datatype dollar = DollarMissing | DollarNotFunction | DollarFunction

record params_cs = params +
  dollar :: dollar

text \<open>
  "Write prompts to files to avoid shell escaping issues": the paths, and what the two calls
  of \<^verbatim>\<open>writeFile\<close> write when they succeed.
\<close>

definition promptFile :: "runtime \<Rightarrow> 'a params_scheme \<Rightarrow> string" where
  "promptFile rt p = path_join rt (tempDir p) ''.claude-prompt.txt''"

definition systemPromptFile :: "runtime \<Rightarrow> 'a params_scheme \<Rightarrow> string" where
  "systemPromptFile rt p = path_join rt (tempDir p) ''.claude-system-prompt.txt''"

definition written_files :: "runtime \<Rightarrow> 'a params_scheme \<Rightarrow> (string \<times> string) list" where
  "written_files rt p = [(promptFile rt p, prompt p), (systemPromptFile rt p, systemPrompt p)]"

definition claudeArgs_cs :: "runtime \<Rightarrow> 'a params_scheme \<Rightarrow> string" where
  "claudeArgs_cs rt p =
     claudeArgs_base p @ '' --prompt-file \"'' @ promptFile rt p @ ''\" --system-prompt-file \"''
       @ systemPromptFile rt p @ ''\"''"

definition fullClaudeCommand :: "runtime \<Rightarrow> 'a params_scheme \<Rightarrow> string" where
  "fullClaudeCommand rt p = claudePath p @ '' '' @ claudeArgs_cs rt p"

text \<open>
  What the file system and \<^verbatim>\<open>$\<close> do. The prompt files are written first, before the guards
  on \<^verbatim>\<open>$\<close> and outside any \<^verbatim>\<open>try\<close>: \<open>write_error\<close> is the error of the first of
  \<^verbatim>\<open>await use('fs')\<close>, \<^verbatim>\<open>await use('path')\<close> and the two \<^verbatim>\<open>await fs.promises.writeFile(...)\<close> that
  fails, if one does. Then one of the three calls of \<^verbatim>\<open>$\<close> in the \<^verbatim>\<open>try\<close> block throws, or the
  command stream is created; it is then awaitable (rejected, or resolved with exit code, stdout
  and stderr) or async-iterable (data chunks with stdout and stderr text, a final chunk with
  \<^verbatim>\<open>done\<close>, or a failing iterator).
\<close>

datatype awaited = Rejected string | Resolved "int option" string string

datatype item = Data string string | Done "int option" "string option" | Raise string

datatype commandStream = Awaitable awaited | AsyncIterable "item list"

record env_cs =
  write_error :: "string option"
  create_error :: "string option"
  stream :: commandStream

text \<open>\<^verbatim>\<open>output.split('\n').filter(line => line.trim())\<close>, then the loop over the lines.\<close>

definition process_output_cs :: "runtime \<Rightarrow> bool \<Rightarrow> string \<Rightarrow> vars \<Rightarrow> vars" where
  "process_output_cs rt verb output st =
     foldl (\<lambda>s line. decode_line rt verb line s) st
       (filter (\<lambda>line. trim line \<noteq> []) (split_nl output))"

text \<open>The \<^verbatim>\<open>catch (execError)\<close> block of the awaitable path.\<close>

definition exec_failed :: "error \<Rightarrow> vars \<Rightarrow> vars" where
  "exec_failed e st = log_call (LogLevel ''error'' (CommandFailed e)) (st\<lparr>commandFailed := True\<rparr>)"

text \<open>
  The awaitable path up to the exit-code test: the lines of \<^verbatim>\<open>result.stdout\<close>, then
  \<^verbatim>\<open>result.stderr\<close> in one log call.
\<close>

definition read_result_cs :: "runtime \<Rightarrow> bool \<Rightarrow> string \<Rightarrow> string \<Rightarrow> vars \<Rightarrow> vars" where
  "read_result_cs rt verb out err st =
     (let st1 = (if out \<noteq> [] then process_output_cs rt verb out st else st) in
      if err \<noteq> [] then log_call (LogStream ''stderr'' (JStr err)) st1 else st1)"

fun run_awaitable :: "runtime \<Rightarrow> bool \<Rightarrow> awaited \<Rightarrow> vars \<Rightarrow> vars" where
  "run_awaitable rt verb (Rejected msg) st = exec_failed (Error msg) st"
| "run_awaitable rt verb (Resolved code out err) st =
     (let st2 = read_result_cs rt verb out err st in
      if code \<noteq> Some 0 then
        (case classify_failure code None st2 of
           Inl e \<Rightarrow> exec_failed e (st2\<lparr>commandFailed := True\<rparr>)
         | Inr st3 \<Rightarrow> st3)
      else st2)"

text \<open>
  \<^verbatim>\<open>for await (const chunk of commandStream)\<close>, left by \<^verbatim>\<open>break\<close> at the first \<^verbatim>\<open>done\<close> chunk.
  A data chunk logs its stderr text, then decodes the lines of its stdout text; nothing is
  carried from one chunk to the next.
\<close>

definition read_chunk_cs :: "runtime \<Rightarrow> bool \<Rightarrow> string \<Rightarrow> string \<Rightarrow> vars \<Rightarrow> vars" where
  "read_chunk_cs rt verb out err st =
     (let st1 = (if err \<noteq> [] then log_call (LogStream ''stderr'' (JStr err)) st else st) in
      if out \<noteq> [] then process_output_cs rt verb out st1 else st1)"

fun run_iteration :: "runtime \<Rightarrow> bool \<Rightarrow> item list \<Rightarrow> vars \<Rightarrow> vars \<times> error option" where
  "run_iteration rt verb [] st = (st, None)"
| "run_iteration rt verb (Done code signal # rest) st =
     (if code \<noteq> Some 0 then
        (case classify_failure code signal st of
           Inl e \<Rightarrow> (st\<lparr>commandFailed := True\<rparr>, Some e)
         | Inr st' \<Rightarrow> (st', None))
      else (st, None))"
| "run_iteration rt verb (Raise msg # rest) st = (st, Some (Error msg))"
| "run_iteration rt verb (Data out err # rest) st =
     run_iteration rt verb rest (read_chunk_cs rt verb out err st)"

definition executeClaudeCommand_cs :: "runtime \<Rightarrow> params_cs \<Rightarrow> env_cs \<Rightarrow> outcome" where
  "executeClaudeCommand_cs rt p env =
     (case write_error env of
        Some msg \<Rightarrow> \<lparr>trace = [], returned = Inl (Error msg)\<rparr>
      | None \<Rightarrow>
          if dollar p = DollarMissing then
            \<lparr>trace = [], returned = Inl (Error ''Command stream ($) is not available'')\<rparr>
          else if dollar p \<noteq> DollarFunction then
            \<lparr>trace = [], returned = Inl (Error ''Command stream ($) is not a function'')\<rparr>
          else
            (case create_error env of
               Some msg \<Rightarrow>
                 \<lparr>trace = [], returned = Inl (Error (''Failed to create command stream: '' @ msg))\<rparr>
             | None \<Rightarrow>
                 (case stream env of
                    Awaitable a \<Rightarrow>
                      (let st = run_awaitable rt (verbose (argv p)) a initial in
                       \<lparr>trace = logged st, returned = Inr (finish st)\<rparr>)
                  | AsyncIterable items \<Rightarrow>
                      (case run_iteration rt (verbose (argv p)) items initial of
                         (st, Some e) \<Rightarrow> \<lparr>trace = logged st, returned = Inl e\<rparr>
                       | (st, None) \<Rightarrow> \<lparr>trace = logged st, returned = Inr (finish st)\<rparr>))))"

section \<open>Notions used to state the properties\<close>

text \<open>A field of the returned object; \<open>None\<close> when the call throws instead of returning.\<close>

definition returned_field :: "outcome \<Rightarrow> string \<Rightarrow> jsval option" where
  "returned_field out k = (case returned out of Inl e \<Rightarrow> None | Inr r \<Rightarrow> Some (js_get r k))"

text \<open>\<^verbatim>\<open>Object.keys\<close> of a returned object.\<close>

fun js_keys :: "jsval \<Rightarrow> string list" where
  "js_keys (JObj kvs) = map fst kvs"
| "js_keys v = []"

text \<open>The stdout chunks of a run in order of arrival, and all its stdout text.\<close>

fun stdout_chunks :: "chunk list \<Rightarrow> string list" where
  "stdout_chunks [] = []"
| "stdout_chunks (Stdout output # cs) = output # stdout_chunks cs"
| "stdout_chunks (Stderr errorOutput # cs) = stdout_chunks cs"

definition stdout_text :: "chunk list \<Rightarrow> string" where
  "stdout_text cs = concat (stdout_chunks cs)"

text \<open>
  The framing of the spawn file alone: \<^const>\<open>take_lines\<close> applied chunk by chunk, the complete
  lines collected in order, the last fragment kept.
\<close>

fun frame :: "string \<Rightarrow> string list \<Rightarrow> string list \<times> string" where
  "frame buffer [] = ([], buffer)"
| "frame buffer (output # outputs) =
     (let (lines, rest) = take_lines buffer output;
          (more_lines, final) = frame rest outputs
      in (lines @ more_lines, final))"

text \<open>
  The specification's words for the session id: an event carries one when its line is not
  blank, parses to a value that is not nullish, and holds a truthy \<^verbatim>\<open>session_id\<close> (for a
  string: a non-empty one); the session id of a run is that of the first such event.
\<close>

definition carried_session_id :: "runtime \<Rightarrow> string \<Rightarrow> jsval option" where
  "carried_session_id rt line =
     (if trim line = [] then None
      else (case JSON_parse rt line of
              None \<Rightarrow> None
            | Some data \<Rightarrow>
                if nullish data then None
                else if truthy (js_get data ''session_id'') then Some (js_get data ''session_id'')
                else None))"

fun first_session_id :: "runtime \<Rightarrow> string list \<Rightarrow> jsval" where
  "first_session_id rt [] = JNull"
| "first_session_id rt (line # lines) =
     (case carried_session_id rt line of
        Some v \<Rightarrow> v
      | None \<Rightarrow> first_session_id rt lines)"

text \<open>
  Concrete inputs for the runs evaluated below. The runtime answers \<^verbatim>\<open>JSON.parse\<close> from a table
  of the JSON lines those runs contain; every other line of theirs is not JSON. The runs reach
  neither \<^verbatim>\<open>JSON.stringify\<close> nor ToNumber.
\<close>

definition parse_table :: "(string \<times> jsval) list" where
  "parse_table =
     [(''{\"type\":\"message\"}'', JObj [(''type'', JStr ''message'')]),
      (''{\"type\":\"tool_use\",\"name\":\"bash\"}'',
         JObj [(''type'', JStr ''tool_use''), (''name'', JStr ''bash'')]),
      (''{\"type\":\"text\",\"text\":\"Error: You have exceeded your rate limit\"}'',
         JObj [(''type'', JStr ''text''), (''text'', JStr ''Error: You have exceeded your rate limit'')]),
      (''{\"type\":\"text\",\"text\":\"context_length_exceeded\"}'',
         JObj [(''type'', JStr ''text''), (''text'', JStr ''context_length_exceeded'')]),
      (''{\"type\":\"text\",\"text\":\"rate limit\"}'',
         JObj [(''type'', JStr ''text''), (''text'', JStr ''rate limit'')]),
      (''{\"type\":\"text\",\"text\":5}'', JObj [(''type'', JStr ''text''), (''text'', JNum 5)]),
      (''{\"session_id\":\"s1\"}'', JObj [(''session_id'', JStr ''s1'')]),
      (''{\"session_id\":\"s2\"}'', JObj [(''session_id'', JStr ''s2'')])]"

definition example_runtime :: runtime where
  "example_runtime =
     \<lparr>JSON_parse = map_of parse_table,
      JSON_stringify = (\<lambda>v. ''{}''),
      ToNumber = (\<lambda>v. None),
      path_join = (\<lambda>dir file. dir @ ''/'' @ file)\<rparr>"

definition example_params :: params where
  "example_params =
     \<lparr>tempDir = ''/tmp/work'', branchName = ''issue-1'',
      prompt = ''Solve the issue'', systemPrompt = ''You solve issues'',
      escapedPrompt = ''Solve the issue'', escapedSystemPrompt = ''You solve issues'',
      argv = \<lparr>model = ''sonnet'', verbose = False, resume = None, fork = False,
               attachLogs = False, url = ''https://example.org/issues/1''\<rparr>,
      forkedRepo = None, feedbackLines = [], claudePath = ''claude''\<rparr>"

definition example_params_cs :: "dollar \<Rightarrow> params_cs" where
  "example_params_cs d = params.extend example_params \<lparr>dollar = d\<rparr>"

section \<open>Facts about splitting\<close>

lemma js_split_not_Nil: "js_split sep s \<noteq> []"
  by (induction s) (auto split: list.splits)

lemma js_split_append:
  "js_split sep (xs @ ys) =
     butlast (js_split sep xs) @ (last (js_split sep xs) @ hd (js_split sep ys)) # tl (js_split sep ys)"
proof (induction xs)
  case Nil
  have "js_split sep ys \<noteq> []" by (rule js_split_not_Nil)
  then show ?case by (cases "js_split sep ys") simp_all
next
  case (Cons c cs)
  have ne: "js_split sep cs \<noteq> []" by (rule js_split_not_Nil)
  show ?case
  proof (cases "c = sep")
    case True
    with Cons ne show ?thesis by simp
  next
    case False
    obtain l ls where ls: "js_split sep cs = l # ls"
      using ne by (cases "js_split sep cs") auto
    show ?thesis
    proof (cases ls)
      case Nil
      with False ls Cons show ?thesis by simp
    next
      case (Cons l' ls')
      with False ls Cons.IH show ?thesis by simp
    qed
  qed
qed

lemma js_join_split: "js_join sep (js_split sep s) = s"
proof (induction s)
  case Nil
  show ?case by simp
next
  case (Cons c cs)
  obtain l ls where ls: "js_split sep cs = l # ls"
    using js_split_not_Nil [of sep cs] by (cases "js_split sep cs") auto
  with Cons show ?case by (cases ls) auto
qed

lemma sep_notin_js_split: "l \<in> set (js_split sep s) \<Longrightarrow> sep \<notin> set l"
proof (induction s arbitrary: l)
  case Nil
  then show ?case by simp
next
  case (Cons c cs)
  obtain l' ls where ls: "js_split sep cs = l' # ls"
    using js_split_not_Nil [of sep cs] by (cases "js_split sep cs") auto
  with Cons show ?case by (auto split: if_splits)
qed

lemma str_includes_sublist: "str_includes s needle \<longleftrightarrow> sublist needle s"
proof (induction s)
  case Nil
  show ?case by auto
next
  case (Cons c cs)
  have "take (length needle) (c # cs) = needle \<longleftrightarrow> prefix needle (c # cs)"
    by (metis append_take_drop_id prefix_def append_eq_conv_conj)
  with Cons show ?case
    by (cases needle) (auto simp: sublist_Cons_right)
qed

section \<open>What the handlers leave unchanged\<close>

lemma log_call_fields [simp]:
  "commandFailed (log_call e st) = commandFailed st"
  "limitReached (log_call e st) = limitReached st"
  "sessionId (log_call e st) = sessionId st"
  "messageCount (log_call e st) = messageCount st"
  "toolUseCount (log_call e st) = toolUseCount st"
  "lastMessage (log_call e st) = lastMessage st"
  "logged (log_call e st) = logged st @ [e]"
  by (simp_all add: log_call_def)

lemma capture_session_fields [simp]:
  "commandFailed (capture_session d st) = commandFailed st"
  "limitReached (capture_session d st) = limitReached st"
  by (simp_all add: capture_session_def)

lemma count_event_fields [simp]:
  "commandFailed (count_event d st) = commandFailed st"
  "limitReached (count_event d st) = limitReached st"
  "sessionId (count_event d st) = sessionId st"
  by (simp_all add: count_event_def)

lemma tool_detail_fields [simp]:
  "commandFailed (tool_detail v d st) = commandFailed st"
  "limitReached (tool_detail v d st) = limitReached st"
  "sessionId (tool_detail v d st) = sessionId st"
  by (simp_all add: tool_detail_def Let_def)

lemma format_event_fields:
  "format_event rt v d st = Inr st' \<Longrightarrow>
     commandFailed st' = commandFailed st \<and> limitReached st' = limitReached st
       \<and> sessionId st' = sessionId st"
  by (auto simp: format_event_def Let_def split: if_splits jsval.splits)

lemma raw_line_fields [simp]:
  "commandFailed (raw_line l st) = commandFailed st"
  "limitReached (raw_line l st) = limitReached st"
  "sessionId (raw_line l st) = sessionId st"
  by (simp_all add: raw_line_def)

lemma decode_line_flags [simp]:
  "commandFailed (decode_line rt v l st) = commandFailed st"
  "limitReached (decode_line rt v l st) = limitReached st"
  by (auto simp: decode_line_def Let_def dest: format_event_fields split: option.splits sum.splits)

lemma process_lines_flags [simp]:
  "commandFailed (process_lines rt v ls st) = commandFailed st"
  "limitReached (process_lines rt v ls st) = limitReached st"
  unfolding process_lines_def by (induction ls arbitrary: st) (simp_all add: process_line_def)

lemma flush_stdout_flags [simp]:
  "commandFailed (flush_stdout rt b st) = commandFailed st"
  "limitReached (flush_stdout rt b st) = limitReached st"
  by (simp_all add: flush_stdout_def split: option.splits)

lemma on_data_flags [simp]:
  "commandFailed (outer (on_data rt v c st)) = commandFailed (outer st)"
  "limitReached (outer (on_data rt v c st)) = limitReached (outer st)"
  by (cases c; simp add: stdout_on_data_def stderr_on_data_def split: prod.splits)+

lemma on_data_fold_flags [simp]:
  "commandFailed (outer (foldl (\<lambda>st c. on_data rt v c st) st cs)) = commandFailed (outer st)"
  "limitReached (outer (foldl (\<lambda>st c. on_data rt v c st) st cs)) = limitReached (outer st)"
  by (induction cs arbitrary: st) simp_all

lemma initial_fields [simp]:
  "commandFailed initial = False" "limitReached initial = False" "sessionId initial = JNull"
  "messageCount initial = 0" "toolUseCount initial = 0" "lastMessage initial = JStr []"
  "logged initial = []"
  by (simp_all add: initial_def)

lemma executeCommand_Closed_fields:
  "executeCommand rt v (Closed cs code sig) = Inr st \<Longrightarrow>
     commandFailed (outer st) = False \<and> limitReached (outer st) = False
       \<and> exitCode st = code \<and> exitSignal st = sig"
  by (auto simp: on_close_def on_exit_def initial_spawn_def)

lemma process_output_cs_flags [simp]:
  "commandFailed (process_output_cs rt v out st) = commandFailed st"
  "limitReached (process_output_cs rt v out st) = limitReached st"
proof -
  have "commandFailed (foldl (\<lambda>s line. decode_line rt v line s) st ls) = commandFailed st
      \<and> limitReached (foldl (\<lambda>s line. decode_line rt v line s) st ls) = limitReached st" for ls
    by (induction ls arbitrary: st) simp_all
  then show "commandFailed (process_output_cs rt v out st) = commandFailed st"
    "limitReached (process_output_cs rt v out st) = limitReached st"
    by (simp_all add: process_output_cs_def)
qed

lemma read_result_cs_flags [simp]:
  "commandFailed (read_result_cs rt v out err st) = commandFailed st"
  "limitReached (read_result_cs rt v out err st) = limitReached st"
  by (simp_all add: read_result_cs_def Let_def)

lemma read_chunk_cs_flags [simp]:
  "commandFailed (read_chunk_cs rt v out err st) = commandFailed st"
  "limitReached (read_chunk_cs rt v out err st) = limitReached st"
  by (simp_all add: read_chunk_cs_def Let_def)

section \<open>Classification\<close>

lemma js_get_result_object [simp]:
  "js_get (result_object ok st) ''success'' = JBool ok"
  "js_get (result_object ok st) ''limitReached'' = JBool (limitReached st)"
  "js_get (result_object ok st) ''sessionId'' = sessionId st"
  "js_get (result_object ok st) ''messageCount'' = JNum (real (messageCount st))"
  "js_get (result_object ok st) ''toolUseCount'' = JNum (real (toolUseCount st))"
  by (simp_all add: result_object_def)

lemma js_get_finish [simp]:
  "js_get (finish st) ''success'' = JBool (\<not> commandFailed st)"
  "js_get (finish st) ''limitReached'' = JBool (limitReached st)"
  by (simp_all add: finish_def)

lemma includes_any_JStr:
  "includes_any (JStr s) ms = Inr (\<exists>m \<in> set ms. str_includes s m)"
  by (induction ms) auto

lemma classify_failure_Inr:
  "classify_failure code sig st = Inr st' \<Longrightarrow>
     commandFailed st' \<and>
     limitReached st' = (limitReached st \<or> includes_any (lastMessage st) rate_limit_markers = Inr True)"
  by (auto simp: classify_failure_def Let_def split: sum.splits if_splits)

lemma classify_failure_limited:
  "includes_any (lastMessage st) rate_limit_markers = Inr True \<Longrightarrow>
     classify_failure code sig st =
       Inr (log_call (LogLevel ''warning'' RateLimitReached)
              (st\<lparr>commandFailed := True, limitReached := True\<rparr>))"
  by (simp add: classify_failure_def Let_def)

lemma classify_failure_context:
  "includes_any (lastMessage st) rate_limit_markers = Inr False \<Longrightarrow>
   js_includes (lastMessage st) ''context_length_exceeded'' = Inr True \<Longrightarrow>
     classify_failure code sig st =
       Inr (log_call (LogLevel ''error'' ContextLengthExceeded) (st\<lparr>commandFailed := True\<rparr>))"
  by (simp add: classify_failure_def Let_def)

text \<open>
  In the run of \<^const>\<open>executeCommand\<close>, where every handler has come to its end, the state that
  the classification reads is the one left by the close handler.
\<close>

lemma executeClaudeCommand_Closed:
  "executeCommand rt (verbose (argv p)) (Closed cs code sig) = Inr st \<Longrightarrow>
   executeClaudeCommand rt p (Closed cs code sig) = after_command code sig (outer st)"
  by (auto simp: executeClaudeCommand_def on_close_def on_exit_def)

lemma executeClaudeCommand_zero:
  "executeCommand rt (verbose (argv p)) (Closed cs (Some 0) sig) = Inr st \<Longrightarrow>
   executeClaudeCommand rt p (Closed cs (Some 0) sig)
     = \<lparr>trace = logged (outer st), returned = Inr (finish (outer st))\<rparr>"
  by (auto simp: executeClaudeCommand_def after_command_def on_close_def on_exit_def)

lemma executeClaudeCommand_nonzero:
  "code \<noteq> Some 0 \<Longrightarrow> executeCommand rt (verbose (argv p)) (Closed cs code sig) = Inr st \<Longrightarrow>
   executeClaudeCommand rt p (Closed cs code sig) =
     (case classify_failure code sig (outer st) of
        Inl e \<Rightarrow> \<lparr>trace = logged (outer st), returned = Inl e\<rparr>
      | Inr st' \<Rightarrow> \<lparr>trace = logged st', returned = Inr (finish st')\<rparr>)"
  by (auto simp: executeClaudeCommand_def after_command_def on_close_def on_exit_def)

lemma run_awaitable_flags:
  "\<not> limitReached st \<Longrightarrow>
     limitReached (run_awaitable rt v a st) \<longrightarrow> commandFailed (run_awaitable rt v a st)"
proof (cases a)
  case (Rejected msg)
  then show ?thesis by (simp add: exec_failed_def)
next
  case (Resolved code out err)
  assume nl: "\<not> limitReached st"
  show ?thesis
  proof (cases "classify_failure code None (read_result_cs rt v out err st)")
    case (Inl e)
    with Resolved nl show ?thesis by (simp add: Let_def exec_failed_def)
  next
    case (Inr st3)
    with Resolved nl classify_failure_Inr [OF Inr] show ?thesis by (simp add: Let_def)
  qed
qed

lemma run_iteration_flags:
  "run_iteration rt v items st = (st', None) \<Longrightarrow> \<not> limitReached st \<Longrightarrow>
     limitReached st' \<longrightarrow> commandFailed st'"
proof (induction rt v items st rule: run_iteration.induct)
  case (1 rt verb st)
  then show ?case by simp
next
  case (2 rt verb code signal rest st)
  then show ?case
    by (auto split: if_splits sum.splits dest: classify_failure_Inr)
next
  case (3 rt verb msg rest st)
  then show ?case by simp
next
  case (4 rt verb out err rest st)
  then show ?case by simp
qed

lemma run_iteration_data:
  "run_iteration rt v (map (\<lambda>(out, err). Data out err) ds @ rest) st
     = run_iteration rt v rest (foldl (\<lambda>s (out, err). read_chunk_cs rt v out err s) st ds)"
  by (induction ds arbitrary: st) (auto split: prod.splits)

lemma read_chunks_flags [simp]:
  "commandFailed (foldl (\<lambda>s (out, err). read_chunk_cs rt v out err s) st ds) = commandFailed st"
  "limitReached (foldl (\<lambda>s (out, err). read_chunk_cs rt v out err s) st ds) = limitReached st"
  by (induction ds arbitrary: st) (auto split: prod.splits)

section \<open>Unfolding the concrete runs\<close>

lemmas run_defs = executeClaudeCommand_def example_runtime_def example_params_def parse_table_def
  initial_spawn_def initial_def stdout_on_data_def stderr_on_data_def take_lines_def split_nl_def
  newline_def process_lines_def process_line_def decode_line_def raw_line_def trim_def is_space_def
  log_call_def capture_session_def count_event_def format_event_def tool_detail_def on_exit_def
  on_close_def flush_stdout_def classify_failure_def rate_limit_markers_def finish_def
  result_object_def returned_field_def after_command_def js_or_def

lemmas run_cs_defs = executeClaudeCommand_cs_def example_params_cs_def params.defs
  process_output_cs_def exec_failed_def read_result_cs_def read_chunk_cs_def

section \<open>Exit code and classification\<close>

text \<open>
  C4. A run of the spawn file whose child exits with code 0 returns \<^verbatim>\<open>success: true\<close>, whatever
  the child wrote. The same holds in the command-stream file, on the awaitable path and on the
  iteration path (data chunks up to a \<^verbatim>\<open>done\<close> chunk with code 0).
\<close>

theorem C4_exit_code_zero_is_success:
  "returned_field (executeClaudeCommand rt p (Closed chunks (Some 0) sig)) ''success''
      = Some (JBool True)
   \<and> returned_field (executeClaudeCommand_cs rt (q\<lparr>dollar := DollarFunction\<rparr>)
         \<lparr>write_error = None, create_error = None, stream = Awaitable (Resolved (Some 0) out err)\<rparr>) ''success''
      = Some (JBool True)
   \<and> returned_field (executeClaudeCommand_cs rt (q\<lparr>dollar := DollarFunction\<rparr>)
         \<lparr>write_error = None, create_error = None,
          stream = AsyncIterable (map (\<lambda>(out, err). Data out err) ds @ Done (Some 0) sig # rest)\<rparr>)
        ''success''
      = Some (JBool True)"
  by (simp add: executeClaudeCommand_def after_command_def executeClaudeCommand_cs_def
      returned_field_def on_close_def on_exit_def initial_spawn_def Let_def run_iteration_data)

text \<open>The run of C4 whose last message is the rate-limit phrase itself.\<close>

theorem C4_exit_code_zero_witness:
  "lastMessage (process_lines example_runtime False
      [''{\"type\":\"text\",\"text\":\"rate limit\"}''] initial) = JStr ''rate limit''
   \<and> executeClaudeCommand example_runtime example_params
       (Closed [Stdout ''{\"type\":\"text\",\"text\":\"rate limit\"}\<newline>''] (Some 0) None)
      = \<lparr>trace = [LogStream ''claude'' (JStr ''rate limit'')],
         returned = Inr (JObj [(''success'', JBool True), (''sessionId'', JNull),
                               (''limitReached'', JBool False), (''messageCount'', JNum 0),
                               (''toolUseCount'', JNum 0)])\<rparr>
   \<and> returned_field (executeClaudeCommand example_runtime example_params
       (Closed [Stdout ''{\"type\":\"text\",\"text\":\"rate limit\"}\<newline>''] (Some 0) None)) ''success''
      = Some (JBool True)"
proof -
  have "lastMessage (process_lines example_runtime False
      [''{\"type\":\"text\",\"text\":\"rate limit\"}''] initial) = JStr ''rate limit''"
    by (simp add: run_defs Let_def)
  moreover have "executeClaudeCommand example_runtime example_params
       (Closed [Stdout ''{\"type\":\"text\",\"text\":\"rate limit\"}\<newline>''] (Some 0) None)
      = \<lparr>trace = [LogStream ''claude'' (JStr ''rate limit'')],
         returned = Inr (JObj [(''success'', JBool True), (''sessionId'', JNull),
                               (''limitReached'', JBool False), (''messageCount'', JNum 0),
                               (''toolUseCount'', JNum 0)])\<rparr>"
    by (simp add: run_defs Let_def)
  moreover have "returned_field (executeClaudeCommand example_runtime example_params
       (Closed [Stdout ''{\"type\":\"text\",\"text\":\"rate limit\"}\<newline>''] (Some 0) None)) ''success''
      = Some (JBool True)"
    by (rule C4_exit_code_zero_is_success [THEN conjunct1])
  ultimately show ?thesis by blast
qed

text \<open>
  C6. Whatever the handlers have assigned when the promise resolves: if the child has not
  exited with code 0 and the \<^verbatim>\<open>lastMessage\<close> that the classification reads is a string that
  contains one of the rate-limit markers, the call returns \<^verbatim>\<open>success: false\<close> and
  \<^verbatim>\<open>limitReached: true\<close>. The statement is about \<^const>\<open>after_command\<close> on any state, so it does
  not depend on the order in which the handlers ran.
\<close>

theorem C6_rate_limit_on_failure:
  assumes "code \<noteq> Some 0"
    and "lastMessage st = JStr s"
    and "\<exists>m \<in> set rate_limit_markers. str_includes s m"
  shows "returned_field (after_command code sig st) ''success'' = Some (JBool False)
       \<and> returned_field (after_command code sig st) ''limitReached'' = Some (JBool True)"
proof -
  from assms(2,3) have "includes_any (lastMessage st) rate_limit_markers = Inr True"
    by (simp add: includes_any_JStr)
  then have "classify_failure code sig st =
       Inr (log_call (LogLevel ''warning'' RateLimitReached)
              (st\<lparr>commandFailed := True, limitReached := True\<rparr>))"
    by (rule classify_failure_limited)
  with assms(1) show ?thesis
    by (simp add: after_command_def returned_field_def)
qed

text \<open>
  The scenario "child exits 1 with last text \<^verbatim>\<open>Error: You have exceeded your rate limit\<close>", on
  the variables as the decoding of that text event leaves them.
\<close>

theorem C6_rate_limit_witness:
  "Some 1 \<noteq> Some (0::int)
   \<and> lastMessage (process_lines example_runtime False
        [''{\"type\":\"text\",\"text\":\"Error: You have exceeded your rate limit\"}''] initial)
       = JStr ''Error: You have exceeded your rate limit''
   \<and> (\<exists>m \<in> set rate_limit_markers. str_includes ''Error: You have exceeded your rate limit'' m)
   \<and> returned_field (after_command (Some 1) None (process_lines example_runtime False
        [''{\"type\":\"text\",\"text\":\"Error: You have exceeded your rate limit\"}''] initial))
       ''success'' = Some (JBool False)
   \<and> returned_field (after_command (Some 1) None (process_lines example_runtime False
        [''{\"type\":\"text\",\"text\":\"Error: You have exceeded your rate limit\"}''] initial))
       ''limitReached'' = Some (JBool True)"
proof -
  have h1: "Some 1 \<noteq> Some (0::int)" by simp
  have h2: "lastMessage (process_lines example_runtime False
        [''{\"type\":\"text\",\"text\":\"Error: You have exceeded your rate limit\"}''] initial)
       = JStr ''Error: You have exceeded your rate limit''"
    by (simp add: run_defs Let_def)
  have h3: "\<exists>m \<in> set rate_limit_markers. str_includes ''Error: You have exceeded your rate limit'' m"
    by (simp add: rate_limit_markers_def)
  from C6_rate_limit_on_failure [OF h1 h2 h3] h1 h2 h3 show ?thesis by blast
qed

text \<open>
  C7. Whatever the handlers have assigned when the promise resolves: if the child has not
  exited with code 0 and the \<^verbatim>\<open>lastMessage\<close> that the classification reads is a string that
  contains \<^verbatim>\<open>context_length_exceeded\<close> and none of the rate-limit markers, the call returns
  \<^verbatim>\<open>success: false\<close> and \<^verbatim>\<open>limitReached: false\<close>, and the one log call it adds to those recorded
  so far is the "Context length exceeded" error. (\<^verbatim>\<open>limitReached\<close> is still false then: no
  handler assigns it.)
\<close>

theorem C7_context_length_on_failure:
  assumes "code \<noteq> Some 0"
    and "lastMessage st = JStr s"
    and "str_includes s ''context_length_exceeded''"
    and "\<not> (\<exists>m \<in> set rate_limit_markers. str_includes s m)"
    and "\<not> limitReached st"
  shows "returned_field (after_command code sig st) ''success'' = Some (JBool False)
       \<and> returned_field (after_command code sig st) ''limitReached'' = Some (JBool False)
       \<and> trace (after_command code sig st) = logged st @ [LogLevel ''error'' ContextLengthExceeded]"
proof -
  from assms(2,4) have a: "includes_any (lastMessage st) rate_limit_markers = Inr False"
    by (simp add: includes_any_JStr)
  from assms(2,3) have b: "js_includes (lastMessage st) ''context_length_exceeded'' = Inr True"
    by simp
  show ?thesis
    using assms(1,5) classify_failure_context [OF a b, of code sig]
    by (simp add: after_command_def returned_field_def)
qed

theorem C7_context_length_witness:
  "Some 1 \<noteq> Some (0::int)
   \<and> lastMessage (process_lines example_runtime False
        [''{\"type\":\"text\",\"text\":\"context_length_exceeded\"}''] initial)
       = JStr ''context_length_exceeded''
   \<and> str_includes ''context_length_exceeded'' ''context_length_exceeded''
   \<and> \<not> (\<exists>m \<in> set rate_limit_markers. str_includes ''context_length_exceeded'' m)
   \<and> \<not> limitReached (process_lines example_runtime False
        [''{\"type\":\"text\",\"text\":\"context_length_exceeded\"}''] initial)
   \<and> returned_field (after_command (Some 1) None (process_lines example_runtime False
        [''{\"type\":\"text\",\"text\":\"context_length_exceeded\"}''] initial)) ''success''
       = Some (JBool False)
   \<and> returned_field (after_command (Some 1) None (process_lines example_runtime False
        [''{\"type\":\"text\",\"text\":\"context_length_exceeded\"}''] initial)) ''limitReached''
       = Some (JBool False)
   \<and> trace (after_command (Some 1) None (process_lines example_runtime False
        [''{\"type\":\"text\",\"text\":\"context_length_exceeded\"}''] initial))
       = [LogStream ''claude'' (JStr ''context_length_exceeded''),
          LogLevel ''error'' ContextLengthExceeded]"
proof -
  have h1: "Some 1 \<noteq> Some (0::int)" by simp
  have h2: "lastMessage (process_lines example_runtime False
        [''{\"type\":\"text\",\"text\":\"context_length_exceeded\"}''] initial)
       = JStr ''context_length_exceeded''"
    by (simp add: run_defs Let_def)
  have h3: "str_includes ''context_length_exceeded'' ''context_length_exceeded''" by simp
  have h4: "\<not> (\<exists>m \<in> set rate_limit_markers. str_includes ''context_length_exceeded'' m)"
    by (simp add: rate_limit_markers_def)
  have h5: "\<not> limitReached (process_lines example_runtime False
        [''{\"type\":\"text\",\"text\":\"context_length_exceeded\"}''] initial)"
    by simp
  have h6: "logged (process_lines example_runtime False
        [''{\"type\":\"text\",\"text\":\"context_length_exceeded\"}''] initial)
       = [LogStream ''claude'' (JStr ''context_length_exceeded'')]"
    by (simp add: run_defs Let_def)
  from C7_context_length_on_failure [OF h1 h2 h3 h4 h5, of None] h1 h2 h3 h4 h5 h6
  show ?thesis by simp
qed

text \<open>
  Success on exit code 0 and the implication from \<^verbatim>\<open>limitReached\<close> to failure hold on any state
  in which the two flags are still false, as they are whenever the promise resolves.
\<close>

lemma after_command_exit_zero:
  "\<not> commandFailed st \<Longrightarrow>
     returned_field (after_command (Some 0) sig st) ''success'' = Some (JBool True)"
  by (simp add: after_command_def returned_field_def)

lemma after_command_limit_implies_failure:
  "\<not> limitReached st \<Longrightarrow>
     returned_field (after_command code sig st) ''limitReached'' = Some (JBool True) \<Longrightarrow>
     returned_field (after_command code sig st) ''success'' = Some (JBool False)"
  by (auto simp: after_command_def returned_field_def split: if_splits sum.splits
      dest: classify_failure_Inr)

text \<open>
  The same two classifications in the command-stream file, on the awaitable path (with
  \<^verbatim>\<open>lastMessage\<close> as left by the lines of \<^verbatim>\<open>result.stdout\<close>) and on the iteration path (with
  \<^verbatim>\<open>lastMessage\<close> as left by the data chunks before the \<^verbatim>\<open>done\<close> chunk).
\<close>

lemma rate_limit_on_failure_cs:
  assumes "code \<noteq> Some 0" and "\<exists>m \<in> set rate_limit_markers. str_includes s m"
    and "dollar q = DollarFunction"
  shows "lastMessage (read_result_cs rt (verbose (argv q)) out err initial) = JStr s \<Longrightarrow>
           returned (executeClaudeCommand_cs rt q
              \<lparr>write_error = None, create_error = None, stream = Awaitable (Resolved code out err)\<rparr>)
           = Inr (result_object False
                    ((read_result_cs rt (verbose (argv q)) out err initial)\<lparr>limitReached := True\<rparr>))"
    and "lastMessage (foldl (\<lambda>st (out, err). read_chunk_cs rt (verbose (argv q)) out err st) initial ds)
           = JStr s \<Longrightarrow>
         returned (executeClaudeCommand_cs rt q
            \<lparr>write_error = None, create_error = None,
             stream = AsyncIterable (map (\<lambda>(out, err). Data out err) ds @ Done code sig # rest)\<rparr>)
           = Inr (result_object False
                    ((foldl (\<lambda>st (out, err). read_chunk_cs rt (verbose (argv q)) out err st) initial ds)
                       \<lparr>limitReached := True\<rparr>))"
proof -
  have lim: "includes_any (lastMessage st) rate_limit_markers = Inr True" if "lastMessage st = JStr s" for st :: vars
    using that assms(2) by (simp add: includes_any_JStr)
  show "lastMessage (read_result_cs rt (verbose (argv q)) out err initial) = JStr s \<Longrightarrow>
           returned (executeClaudeCommand_cs rt q
              \<lparr>write_error = None, create_error = None, stream = Awaitable (Resolved code out err)\<rparr>)
           = Inr (result_object False
                    ((read_result_cs rt (verbose (argv q)) out err initial)\<lparr>limitReached := True\<rparr>))"
    using assms(1,3)
    by (simp add: executeClaudeCommand_cs_def Let_def classify_failure_limited [OF lim] finish_def
        result_object_def)
  show "lastMessage (foldl (\<lambda>st (out, err). read_chunk_cs rt (verbose (argv q)) out err st) initial ds)
           = JStr s \<Longrightarrow>
         returned (executeClaudeCommand_cs rt q
            \<lparr>write_error = None, create_error = None,
             stream = AsyncIterable (map (\<lambda>(out, err). Data out err) ds @ Done code sig # rest)\<rparr>)
           = Inr (result_object False
                    ((foldl (\<lambda>st (out, err). read_chunk_cs rt (verbose (argv q)) out err st) initial ds)
                       \<lparr>limitReached := True\<rparr>))"
    using assms(1,3)
    by (simp add: executeClaudeCommand_cs_def run_iteration_data classify_failure_limited [OF lim]
        finish_def result_object_def)
qed

lemma context_length_on_failure_cs:
  assumes "code \<noteq> Some 0" and "str_includes s ''context_length_exceeded''"
    and "\<not> (\<exists>m \<in> set rate_limit_markers. str_includes s m)"
    and "dollar q = DollarFunction"
  shows "lastMessage (read_result_cs rt (verbose (argv q)) out err initial) = JStr s \<Longrightarrow>
           returned (executeClaudeCommand_cs rt q
              \<lparr>write_error = None, create_error = None, stream = Awaitable (Resolved code out err)\<rparr>)
           = Inr (result_object False (read_result_cs rt (verbose (argv q)) out err initial))"
    and "lastMessage (foldl (\<lambda>st (out, err). read_chunk_cs rt (verbose (argv q)) out err st) initial ds)
           = JStr s \<Longrightarrow>
         returned (executeClaudeCommand_cs rt q
            \<lparr>write_error = None, create_error = None,
             stream = AsyncIterable (map (\<lambda>(out, err). Data out err) ds @ Done code sig # rest)\<rparr>)
           = Inr (result_object False
                    (foldl (\<lambda>st (out, err). read_chunk_cs rt (verbose (argv q)) out err st) initial ds))"
proof -
  have a: "includes_any (lastMessage st) rate_limit_markers = Inr False"
    and b: "js_includes (lastMessage st) ''context_length_exceeded'' = Inr True"
    if "lastMessage st = JStr s" for st :: vars
    using that assms(2,3) by (simp_all add: includes_any_JStr)
  show "lastMessage (read_result_cs rt (verbose (argv q)) out err initial) = JStr s \<Longrightarrow>
           returned (executeClaudeCommand_cs rt q
              \<lparr>write_error = None, create_error = None, stream = Awaitable (Resolved code out err)\<rparr>)
           = Inr (result_object False (read_result_cs rt (verbose (argv q)) out err initial))"
    using assms(1,4)
    by (simp add: executeClaudeCommand_cs_def Let_def classify_failure_context [OF a b] finish_def
        result_object_def)
  show "lastMessage (foldl (\<lambda>st (out, err). read_chunk_cs rt (verbose (argv q)) out err st) initial ds)
           = JStr s \<Longrightarrow>
         returned (executeClaudeCommand_cs rt q
            \<lparr>write_error = None, create_error = None,
             stream = AsyncIterable (map (\<lambda>(out, err). Data out err) ds @ Done code sig # rest)\<rparr>)
           = Inr (result_object False
                    (foldl (\<lambda>st (out, err). read_chunk_cs rt (verbose (argv q)) out err st) initial ds))"
    using assms(1,4)
    by (simp add: executeClaudeCommand_cs_def run_iteration_data classify_failure_context [OF a b]
        finish_def result_object_def)
qed

text \<open>
  C10. In every object returned by either file, \<^verbatim>\<open>limitReached: true\<close> comes with
  \<^verbatim>\<open>success: false\<close>.
\<close>

theorem C10_limit_reached_implies_failure:
  "(returned_field (executeClaudeCommand rt p ch) ''limitReached'' = Some (JBool True)
      \<longrightarrow> returned_field (executeClaudeCommand rt p ch) ''success'' = Some (JBool False))
   \<and> (returned_field (executeClaudeCommand_cs rt q env) ''limitReached'' = Some (JBool True)
      \<longrightarrow> returned_field (executeClaudeCommand_cs rt q env) ''success'' = Some (JBool False))"
proof
  show "returned_field (executeClaudeCommand rt p ch) ''limitReached'' = Some (JBool True)
      \<longrightarrow> returned_field (executeClaudeCommand rt p ch) ''success'' = Some (JBool False)"
  proof (cases ch)
    case (SpawnError msg)
    then show ?thesis by (simp add: executeClaudeCommand_def returned_field_def)
  next
    case (Closed cs code sig)
    obtain st where st: "executeCommand rt (verbose (argv p)) (Closed cs code sig) = Inr st" by simp
    note fl = executeCommand_Closed_fields [OF st]
    show ?thesis
    proof (cases "code = Some 0")
      case True
      with Closed st fl show ?thesis
        by (simp add: executeClaudeCommand_zero returned_field_def del: executeCommand.simps)
    next
      case False
      show ?thesis
      proof (cases "classify_failure code sig (outer st)")
        case (Inl e)
        with Closed st False show ?thesis
          by (simp add: executeClaudeCommand_nonzero returned_field_def del: executeCommand.simps)
      next
        case (Inr st')
        with Closed st False classify_failure_Inr [OF Inr] show ?thesis
          by (simp add: executeClaudeCommand_nonzero returned_field_def del: executeCommand.simps)
      qed
    qed
  qed
next
  show "returned_field (executeClaudeCommand_cs rt q env) ''limitReached'' = Some (JBool True)
      \<longrightarrow> returned_field (executeClaudeCommand_cs rt q env) ''success'' = Some (JBool False)"
  proof (cases "write_error env = None \<and> dollar q = DollarFunction \<and> create_error env = None")
    case False
    then show ?thesis
      by (auto simp: executeClaudeCommand_cs_def returned_field_def split: option.splits)
  next
    case True
    show ?thesis
    proof (cases "stream env")
      case (Awaitable a)
      with True run_awaitable_flags [of initial rt "verbose (argv q)" a] show ?thesis
        by (simp add: executeClaudeCommand_cs_def returned_field_def Let_def)
    next
      case (AsyncIterable items)
      obtain st e where r: "run_iteration rt (verbose (argv q)) items initial = (st, e)"
        by (cases "run_iteration rt (verbose (argv q)) items initial")
      show ?thesis
      proof (cases e)
        case None
        with True AsyncIterable r run_iteration_flags [of rt "verbose (argv q)" items initial st]
        show ?thesis
          by (simp add: executeClaudeCommand_cs_def returned_field_def)
      next
        case (Some err)
        with True AsyncIterable r show ?thesis
          by (simp add: executeClaudeCommand_cs_def returned_field_def)
      qed
    qed
  qed
qed

theorem C10_limit_reached_witness:
  "returned_field (executeClaudeCommand example_runtime example_params
       (Closed [Stdout ''{\"type\":\"text\",\"text\":\"rate limit\"}\<newline>''] (Some 1) None))
     ''limitReached'' = Some (JBool True)
   \<and> returned_field (executeClaudeCommand example_runtime example_params
       (Closed [Stdout ''{\"type\":\"text\",\"text\":\"rate limit\"}\<newline>''] (Some 1) None))
     ''success'' = Some (JBool False)"
proof -
  have h: "returned_field (executeClaudeCommand example_runtime example_params
       (Closed [Stdout ''{\"type\":\"text\",\"text\":\"rate limit\"}\<newline>''] (Some 1) None))
     ''limitReached'' = Some (JBool True)"
    by (simp add: run_defs Let_def)
  with C10_limit_reached_implies_failure [of example_runtime example_params
      "Closed [Stdout ''{\"type\":\"text\",\"text\":\"rate limit\"}\<newline>''] (Some 1) None"]
  show ?thesis by blast
qed

section \<open>The returned object\<close>

lemma js_keys_result_object [simp]:
  "js_keys (result_object ok st)
     = [''success'', ''sessionId'', ''limitReached'', ''messageCount'', ''toolUseCount'']"
  by (simp add: result_object_def)

lemma executeClaudeCommand_returns_result_object:
  "returned (executeClaudeCommand rt p ch) = Inr r \<Longrightarrow> \<exists>ok st. r = result_object ok st"
  by (cases ch)
     (auto simp: executeClaudeCommand_def after_command_def finish_def Let_def
        split: sum.splits if_splits)

lemma after_command_returns_result_object:
  "returned (after_command code sig st) = Inr r \<Longrightarrow> \<exists>ok st'. r = result_object ok st'"
  by (auto simp: after_command_def finish_def split: sum.splits if_splits)

lemma executeClaudeCommand_cs_returns_result_object:
  "returned (executeClaudeCommand_cs rt q env) = Inr r \<Longrightarrow> \<exists>ok st. r = result_object ok st"
  by (auto simp: executeClaudeCommand_cs_def finish_def Let_def
      split: sum.splits if_splits option.splits commandStream.splits prod.splits)

text \<open>
  C8, as the code has it. The object of the three \<^verbatim>\<open>return\<close> statements has five fields and no
  other: a run ended by SIGTERM returns neither an exit code nor the signal.
\<close>

theorem C8_no_exit_fields_counterexample:
  "returned (executeClaudeCommand example_runtime example_params
       (Closed [] None (Some ''SIGTERM'')))
     = Inr (JObj [(''success'', JBool False), (''sessionId'', JNull), (''limitReached'', JBool False),
                  (''messageCount'', JNum 0), (''toolUseCount'', JNum 0)])
   \<and> map_sum id js_keys (returned (executeClaudeCommand example_runtime example_params
       (Closed [] None (Some ''SIGTERM''))))
     = Inr [''success'', ''sessionId'', ''limitReached'', ''messageCount'', ''toolUseCount'']"
  by (simp add: run_defs Let_def)

text \<open>
  C8, amended. Every object returned by either file has exactly the fields \<^verbatim>\<open>success\<close>,
  \<^verbatim>\<open>sessionId\<close>, \<^verbatim>\<open>limitReached\<close>, \<^verbatim>\<open>messageCount\<close> and \<^verbatim>\<open>toolUseCount\<close>, the two flags
  booleans and the two counters numbers.
\<close>

theorem C8_returned_fields:
  assumes "returned (executeClaudeCommand rt p ch) = Inr r
             \<or> returned (executeClaudeCommand_cs rt q env) = Inr r"
  shows "js_keys r = [''success'', ''sessionId'', ''limitReached'', ''messageCount'', ''toolUseCount'']
       \<and> (\<exists>b. js_get r ''success'' = JBool b)
       \<and> (\<exists>b. js_get r ''limitReached'' = JBool b)
       \<and> (\<exists>n. js_get r ''messageCount'' = JNum (real n))
       \<and> (\<exists>n. js_get r ''toolUseCount'' = JNum (real n))"
proof -
  from assms obtain ok st where "r = result_object ok st"
    using executeClaudeCommand_returns_result_object executeClaudeCommand_cs_returns_result_object
    by blast
  then show ?thesis by simp
qed

theorem C8_returned_fields_witness:
  "returned (executeClaudeCommand example_runtime example_params
      (Closed [Stdout ''{\"type\":\"message\"}\<newline>{\"type\":\"tool_use\",\"name\":\"bash\"}\<newline>'']
         (Some 0) None))
     = Inr (JObj [(''success'', JBool True), (''sessionId'', JNull), (''limitReached'', JBool False),
                  (''messageCount'', JNum 1), (''toolUseCount'', JNum 1)])
   \<and> js_keys (JObj [(''success'', JBool True), (''sessionId'', JNull), (''limitReached'', JBool False),
                  (''messageCount'', JNum 1), (''toolUseCount'', JNum 1)])
     = [''success'', ''sessionId'', ''limitReached'', ''messageCount'', ''toolUseCount'']"
proof -
  have h: "returned (executeClaudeCommand example_runtime example_params
      (Closed [Stdout ''{\"type\":\"message\"}\<newline>{\"type\":\"tool_use\",\"name\":\"bash\"}\<newline>'']
         (Some 0) None))
     = Inr (JObj [(''success'', JBool True), (''sessionId'', JNull), (''limitReached'', JBool False),
                  (''messageCount'', JNum 1), (''toolUseCount'', JNum 1)])"
    by (simp add: run_defs Let_def)
  from C8_returned_fields [OF disjI1, OF h] h show ?thesis by blast
qed

section \<open>The session id\<close>

lemma sessionId_capture_session:
  "sessionId (capture_session d st) =
     (if \<not> truthy (sessionId st) \<and> truthy (js_get d ''session_id'')
      then js_get d ''session_id'' else sessionId st)"
  by (simp add: capture_session_def)

lemma sessionId_after_format:
  "sessionId (case format_event rt v d st of Inl e \<Rightarrow> raw_line l st | Inr st' \<Rightarrow> st') = sessionId st"
proof (cases "format_event rt v d st")
  case (Inl e)
  then show ?thesis by simp
next
  case (Inr st')
  with format_event_fields [OF Inr] show ?thesis by simp
qed

lemma sessionId_decode_line:
  "sessionId (decode_line rt v l st) =
     (if truthy (sessionId st) then sessionId st
      else (case JSON_parse rt l of
              None \<Rightarrow> sessionId st
            | Some d \<Rightarrow> if \<not> nullish d \<and> truthy (js_get d ''session_id'')
                        then js_get d ''session_id'' else sessionId st))"
  by (simp add: decode_line_def Let_def sessionId_after_format sessionId_capture_session
      split: option.splits)

lemma sessionId_process_line:
  "sessionId (process_line rt v l st) =
     (if truthy (sessionId st) then sessionId st
      else (case carried_session_id rt l of Some sid \<Rightarrow> sid | None \<Rightarrow> sessionId st))"
  by (simp add: process_line_def sessionId_decode_line carried_session_id_def split: option.splits)

lemma carried_session_id_truthy: "carried_session_id rt l = Some sid \<Longrightarrow> truthy sid"
  by (auto simp: carried_session_id_def split: if_splits option.splits)

lemma sessionId_kept:
  "truthy (sessionId st) \<Longrightarrow> sessionId (process_lines rt v ls st) = sessionId st"
  unfolding process_lines_def
  by (induction ls arbitrary: st) (simp_all add: sessionId_process_line)

lemma sessionId_first:
  "sessionId st = JNull \<Longrightarrow> sessionId (process_lines rt v ls st) = first_session_id rt ls"
proof (induction ls arbitrary: st)
  case Nil
  then show ?case by (simp add: process_lines_def)
next
  case (Cons l ls)
  show ?case
  proof (cases "carried_session_id rt l")
    case None
    with Cons.prems have "sessionId (process_line rt v l st) = JNull"
      by (simp add: sessionId_process_line)
    from Cons.IH [OF this] None show ?thesis by (simp add: process_lines_def)
  next
    case (Some sid)
    with Cons.prems have s: "sessionId (process_line rt v l st) = sid"
      by (simp add: sessionId_process_line)
    have "truthy (sessionId (process_line rt v l st))"
      using s carried_session_id_truthy [OF Some] by simp
    from sessionId_kept [OF this, of rt v ls] s Some show ?thesis
      by (simp add: process_lines_def)
  qed
qed

text \<open>
  The command-stream file filters the blank lines out before its loop where the spawn file
  skips them inside it: both fold the same lines.
\<close>

lemma process_output_cs_eq:
  "process_output_cs rt v out st = process_lines rt v (split_nl out) st"
proof -
  have "foldl (\<lambda>s line. decode_line rt v line s) st (filter (\<lambda>line. trim line \<noteq> []) ls)
      = foldl (\<lambda>s line. process_line rt v line s) st ls" for ls
    by (induction ls arbitrary: st) (simp_all add: process_line_def)
  then show ?thesis by (simp add: process_output_cs_def process_lines_def)
qed

text \<open>
  C9. Folding the decoded lines from an unset session id leaves \<^verbatim>\<open>sessionId\<close> at the
  \<^verbatim>\<open>session_id\<close> of the first event that carries one; once it is set, no later line changes it,
  whatever \<^verbatim>\<open>session_id\<close> that line carries.
\<close>

theorem C9_session_id_first_wins:
  "(sessionId st = JNull \<longrightarrow> sessionId (process_lines rt verb lines st) = first_session_id rt lines)
   \<and> (truthy (sessionId (process_lines rt verb lines st)) \<longrightarrow>
        sessionId (process_lines rt verb (lines @ later) st)
          = sessionId (process_lines rt verb lines st))"
proof -
  have "process_lines rt verb (lines @ later) st
      = process_lines rt verb later (process_lines rt verb lines st)"
    by (simp add: process_lines_def)
  then show ?thesis
    by (simp add: sessionId_first sessionId_kept)
qed

theorem C9_session_id_witness:
  "sessionId initial = JNull
   \<and> sessionId (process_lines example_runtime False [''{\"session_id\":\"s1\"}''] initial) = JStr ''s1''
   \<and> first_session_id example_runtime [''{\"session_id\":\"s1\"}''] = JStr ''s1''
   \<and> truthy (sessionId (process_lines example_runtime False [''{\"session_id\":\"s1\"}''] initial))
   \<and> sessionId (process_lines example_runtime False
         ([''{\"session_id\":\"s1\"}''] @ [''{\"session_id\":\"s2\"}'']) initial) = JStr ''s1''"
proof -
  have h1: "sessionId initial = JNull" by simp
  have h2: "first_session_id example_runtime [''{\"session_id\":\"s1\"}''] = JStr ''s1''"
    by (simp add: carried_session_id_def example_runtime_def parse_table_def trim_def is_space_def)
  from C9_session_id_first_wins [of initial example_runtime False "[''{\"session_id\":\"s1\"}'']"
      "[''{\"session_id\":\"s2\"}'']"] h1 h2
  show ?thesis by simp
qed

section \<open>Line framing\<close>

lemma js_split_no_sep: "sep \<notin> set l \<Longrightarrow> js_split sep l = [l]"
  by (induction l) auto

lemma last_js_split_no_sep: "sep \<notin> set (last (js_split sep s))"
  by (rule sep_notin_js_split [of _ sep s]) (simp add: js_split_not_Nil)

lemma js_split_append_last:
  "js_split sep (xs @ ys) = butlast (js_split sep xs) @ js_split sep (last (js_split sep xs) @ ys)"
proof -
  have "js_split sep (last (js_split sep xs) @ ys)
      = (last (js_split sep xs) @ hd (js_split sep ys)) # tl (js_split sep ys)"
    by (simp add: js_split_append [of sep "last (js_split sep xs)"] js_split_no_sep
        last_js_split_no_sep)
  then show ?thesis by (simp add: js_split_append [of sep xs ys])
qed

lemma take_lines_eq:
  "take_lines buffer out = (butlast (split_nl (buffer @ out)), last (split_nl (buffer @ out)))"
  by (simp add: take_lines_def Let_def split_nl_def js_split_not_Nil)

lemma frame_eq:
  "newline \<notin> set buffer \<Longrightarrow>
   frame buffer outs =
     (butlast (split_nl (buffer @ concat outs)), last (split_nl (buffer @ concat outs)))"
proof (induction outs arbitrary: buffer)
  case Nil
  then show ?case by (simp add: split_nl_def js_split_no_sep)
next
  case (Cons out outs)
  let ?rest = "last (split_nl (buffer @ out))"
  have rest: "newline \<notin> set ?rest"
    by (simp add: split_nl_def last_js_split_no_sep)
  have split: "split_nl (buffer @ out @ concat outs)
             = butlast (split_nl (buffer @ out)) @ split_nl (?rest @ concat outs)"
    unfolding split_nl_def using js_split_append_last [of newline "buffer @ out" "concat outs"]
    by simp
  have ne: "split_nl (?rest @ concat outs) \<noteq> []"
    by (simp add: split_nl_def js_split_not_Nil)
  show ?case
    by (simp add: take_lines_eq Cons.IH [OF rest] split butlast_append ne)
qed

lemma frame_no_newline_left: "newline \<notin> set buffer \<Longrightarrow> newline \<notin> set (snd (frame buffer outs))"
  by (simp add: frame_eq split_nl_def last_js_split_no_sep)

text \<open>
  The framing of the spawn file does not depend on the chunk boundaries: the lines handed to
  the decoder are the parts of the whole text before its last newline, the fragment kept back
  is what follows it, and joining them with newlines gives the text back.
\<close>

theorem spawn_framing_chunk_independent:
  "frame [] outs = (butlast (split_nl (concat outs)), last (split_nl (concat outs)))"
  using frame_eq [of "[]" outs] by simp

lemma spawn_framing_loses_only_newlines:
  "frame [] outs = (lines, rest) \<Longrightarrow> js_join newline (lines @ [rest]) = concat outs"
  using js_join_split [of newline "concat outs"]
  by (auto simp: spawn_framing_chunk_independent split_nl_def js_split_not_Nil)

lemma process_lines_append:
  "process_lines rt v (xs @ ys) st = process_lines rt v ys (process_lines rt v xs st)"
  by (simp add: process_lines_def)

lemma stdoutBuffer_on_data_fold:
  "stdoutBuffer (foldl (\<lambda>st c. on_data rt v c st) st cs)
     = snd (frame (stdoutBuffer st) (stdout_chunks cs))"
proof (induction cs arbitrary: st)
  case Nil
  show ?case by simp
next
  case (Cons c cs)
  show ?case
    by (cases c)
       (simp_all add: Cons.IH stdout_on_data_def stderr_on_data_def split: prod.splits)
qed

lemma on_data_fold_stdout:
  "foldl (\<lambda>st c. on_data rt v c st) st (map Stdout outs)
     = st\<lparr>stdoutBuffer := snd (frame (stdoutBuffer st) outs),
          outer := process_lines rt v (fst (frame (stdoutBuffer st) outs)) (outer st)\<rparr>"
proof (induction outs arbitrary: st)
  case Nil
  show ?case by (simp add: process_lines_def)
next
  case (Cons out outs)
  show ?case
    by (simp add: Cons.IH stdout_on_data_def process_lines_append split: prod.splits)
qed

text \<open>
  Two runs of the spawn file whose stdout chunks concatenate to the same text, with nothing on
  stderr, end in the same outcome.
\<close>

theorem spawn_run_chunk_independent:
  assumes "concat outs = concat outs'"
  shows "executeClaudeCommand rt p (Closed (map Stdout outs) code sig)
       = executeClaudeCommand rt p (Closed (map Stdout outs') code sig)"
proof -
  have "frame [] outs = frame [] outs'"
    using assms by (simp add: spawn_framing_chunk_independent)
  then show ?thesis
    by (simp add: executeClaudeCommand_def on_data_fold_stdout initial_spawn_def)
qed

text \<open>
  C3, in the command-stream file. The iteration path splits every chunk on its own and keeps
  no fragment for the next chunk: an event whose line arrives in two chunks is logged as two
  raw lines and not counted, while the same text in one chunk is counted as a message. The
  spawn file, given the same two chunks, counts it.
\<close>

theorem C3_split_line_command_stream:
  "executeClaudeCommand_cs example_runtime (example_params_cs DollarFunction)
     \<lparr>write_error = None, create_error = None,
      stream = AsyncIterable [Data ''{\"type\":\"mess'' [], Data ''age\"}\<newline>'' [], Done (Some 0) None]\<rparr>
     = \<lparr>trace = [LogStream ''raw'' (JStr ''{\"type\":\"mess''), LogStream ''raw'' (JStr ''age\"}'')],
        returned = Inr (JObj [(''success'', JBool True), (''sessionId'', JNull),
                              (''limitReached'', JBool False), (''messageCount'', JNum 0),
                              (''toolUseCount'', JNum 0)])\<rparr>
   \<and> executeClaudeCommand_cs example_runtime (example_params_cs DollarFunction)
     \<lparr>write_error = None, create_error = None,
      stream = AsyncIterable [Data ''{\"type\":\"message\"}\<newline>'' [], Done (Some 0) None]\<rparr>
     = \<lparr>trace = [],
        returned = Inr (JObj [(''success'', JBool True), (''sessionId'', JNull),
                              (''limitReached'', JBool False), (''messageCount'', JNum 1),
                              (''toolUseCount'', JNum 0)])\<rparr>
   \<and> executeClaudeCommand example_runtime example_params
       (Closed [Stdout ''{\"type\":\"mess'', Stdout ''age\"}\<newline>''] (Some 0) None)
     = \<lparr>trace = [],
        returned = Inr (JObj [(''success'', JBool True), (''sessionId'', JNull),
                              (''limitReached'', JBool False), (''messageCount'', JNum 1),
                              (''toolUseCount'', JNum 0)])\<rparr>"
  by (simp add: run_defs run_cs_defs Let_def)

section \<open>The close handler\<close>

lemma flush_stdout_raw:
  "trim frag \<noteq> [] \<Longrightarrow> JSON_parse rt frag = None \<Longrightarrow> \<not> str_includes frag ''node:internal'' \<Longrightarrow>
     flush_stdout rt frag st = (log_call (LogStream ''raw'' (JStr frag)) st)\<lparr>lastMessage := JStr frag\<rparr>"
  by (simp add: flush_stdout_def raw_line_def)

lemma success_by_exit_code:
  "returned (executeClaudeCommand rt p (Closed chunks code sig)) = Inr r \<Longrightarrow>
     js_get r ''success'' = JBool (code = Some 0)"
proof -
  obtain st where st: "executeCommand rt (verbose (argv p)) (Closed chunks code sig) = Inr st"
    by simp
  note fl = executeCommand_Closed_fields [OF st]
  assume r: "returned (executeClaudeCommand rt p (Closed chunks code sig)) = Inr r"
  show ?thesis
  proof (cases "code = Some 0")
    case True
    with st fl r show ?thesis
      by (auto simp: executeClaudeCommand_zero simp del: executeCommand.simps)
  next
    case False
    show ?thesis
    proof (cases "classify_failure code sig (outer st)")
      case (Inl e)
      with False st r show ?thesis
        by (simp add: executeClaudeCommand_nonzero del: executeCommand.simps)
    next
      case (Inr st')
      with False st r classify_failure_Inr [OF Inr] show ?thesis
        by (auto simp: executeClaudeCommand_nonzero simp del: executeCommand.simps)
    qed
  qed
qed

text \<open>
  C5, as stated, fails on the spawn file: the close handler is not the loop body. A trailing
  \<^verbatim>\<open>message\<close> event without a newline is not counted and a trailing \<^verbatim>\<open>session_id\<close> is not
  captured, while the same text followed by a newline is; text on stderr is never decoded.
\<close>

theorem C5_flush_is_not_the_line_path_counterexample:
  "returned_field (executeClaudeCommand example_runtime example_params
      (Closed [Stdout ''{\"type\":\"message\"}''] (Some 0) None)) ''messageCount'' = Some (JNum 0)
   \<and> returned_field (executeClaudeCommand example_runtime example_params
      (Closed [Stdout ''{\"type\":\"message\"}\<newline>''] (Some 0) None)) ''messageCount'' = Some (JNum 1)
   \<and> returned_field (executeClaudeCommand example_runtime example_params
      (Closed [Stdout ''{\"session_id\":\"s1\"}''] (Some 0) None)) ''sessionId'' = Some JNull
   \<and> returned_field (executeClaudeCommand example_runtime example_params
      (Closed [Stdout ''{\"session_id\":\"s1\"}\<newline>''] (Some 0) None)) ''sessionId'' = Some (JStr ''s1'')
   \<and> returned_field (executeClaudeCommand example_runtime example_params
      (Closed [Stderr ''{\"type\":\"message\"}''] (Some 0) None)) ''messageCount'' = Some (JNum 0)"
  by (simp add: run_defs Let_def)

text \<open>
  C5, amended. When the child closes, the spawn file flushes the residual stdout fragment (the
  text after the last newline of stdout) and nothing of stderr: a fragment that is not blank,
  that \<^verbatim>\<open>JSON.parse\<close> rejects and that does not contain \<^verbatim>\<open>node:internal\<close> is logged as exactly one
  raw entry and becomes \<^verbatim>\<open>lastMessage\<close>. A stderr chunk is logged as it arrives and changes
  none of the variables of \<^verbatim>\<open>executeClaudeCommand\<close>. The returned \<^verbatim>\<open>success\<close> is true exactly when
  the exit code is 0.
\<close>

theorem C5_residual_fragment_flushed_raw:
  assumes "frag = last (split_nl (stdout_text chunks))"
    and "trim frag \<noteq> []"
    and "JSON_parse rt frag = None"
    and "\<not> str_includes frag ''node:internal''"
    and "open_state = foldl (\<lambda>st c. on_data rt (verbose (argv p)) c st) initial_spawn chunks"
  shows "executeCommand rt (verbose (argv p)) (Closed chunks code sig)
           = Inr (open_state\<lparr>exitCode := code, exitSignal := sig,
                    outer := (log_call (LogStream ''raw'' (JStr frag)) (outer open_state))
                               \<lparr>lastMessage := JStr frag\<rparr>\<rparr>)
       \<and> outer (stderr_on_data errorOutput st)
           = (outer st)\<lparr>logged := logged (outer st)
                @ (if errorOutput \<noteq> [] then [LogStream ''stderr'' (JStr errorOutput)] else [])\<rparr>
       \<and> returned_field (executeClaudeCommand rt p (Closed chunks code sig)) ''success''
           = Some (JBool (code = Some 0))"
proof -
  have buf: "stdoutBuffer open_state = frag"
    using assms(1,5)
    by (simp add: stdoutBuffer_on_data_fold initial_spawn_def stdout_text_def frame_eq)
  have ex: "executeCommand rt (verbose (argv p)) (Closed chunks code sig)
           = Inr (open_state\<lparr>exitCode := code, exitSignal := sig,
                    outer := (log_call (LogStream ''raw'' (JStr frag)) (outer open_state))
                               \<lparr>lastMessage := JStr frag\<rparr>\<rparr>)"
    using buf assms(2,3,4,5) by (simp add: on_close_def on_exit_def flush_stdout_raw)
  have ret: "\<exists>r. returned (executeClaudeCommand rt p (Closed chunks code sig)) = Inr r"
  proof (cases "code = Some 0")
    case True
    then show ?thesis
      by (simp add: executeClaudeCommand_def after_command_def Let_def on_close_def on_exit_def)
  next
    case False
    then show ?thesis
      using ex
      by (simp add: executeClaudeCommand_nonzero classify_failure_def includes_any_JStr Let_def
          del: executeCommand.simps)
  qed
  then obtain r where r: "returned (executeClaudeCommand rt p (Closed chunks code sig)) = Inr r" ..
  from success_by_exit_code [OF r] r
  have "returned_field (executeClaudeCommand rt p (Closed chunks code sig)) ''success''
           = Some (JBool (code = Some 0))"
    by (simp add: returned_field_def)
  moreover have "outer (stderr_on_data errorOutput st)
           = (outer st)\<lparr>logged := logged (outer st)
                @ (if errorOutput \<noteq> [] then [LogStream ''stderr'' (JStr errorOutput)] else [])\<rparr>"
    by (simp add: stderr_on_data_def log_call_def)
  ultimately show ?thesis using ex by blast
qed

theorem C5_truncated_fragment_witness:
  "''{\"type\":\"err'' = last (split_nl (stdout_text [Stdout ''{\"type\":\"err'']))
   \<and> trim ''{\"type\":\"err'' \<noteq> []
   \<and> JSON_parse example_runtime ''{\"type\":\"err'' = None
   \<and> \<not> str_includes ''{\"type\":\"err'' ''node:internal''
   \<and> executeClaudeCommand example_runtime example_params (Closed [Stdout ''{\"type\":\"err''] (Some 0) None)
       = \<lparr>trace = [LogStream ''raw'' (JStr ''{\"type\":\"err'')],
          returned = Inr (JObj [(''success'', JBool True), (''sessionId'', JNull),
                                (''limitReached'', JBool False), (''messageCount'', JNum 0),
                                (''toolUseCount'', JNum 0)])\<rparr>
   \<and> returned_field (executeClaudeCommand example_runtime example_params
        (Closed [Stdout ''{\"type\":\"err''] (Some 0) None)) ''success'' = Some (JBool (Some 0 = Some (0::int)))"
proof -
  have h1: "''{\"type\":\"err'' = last (split_nl (stdout_text [Stdout ''{\"type\":\"err'']))"
    by (simp add: split_nl_def stdout_text_def newline_def)
  have h2: "trim ''{\"type\":\"err'' \<noteq> []"
    by (simp add: trim_def is_space_def)
  have h3: "JSON_parse example_runtime ''{\"type\":\"err'' = None"
    by (simp add: example_runtime_def parse_table_def)
  have h4: "\<not> str_includes ''{\"type\":\"err'' ''node:internal''"
    by simp
  have h5: "executeClaudeCommand example_runtime example_params
        (Closed [Stdout ''{\"type\":\"err''] (Some 0) None)
       = \<lparr>trace = [LogStream ''raw'' (JStr ''{\"type\":\"err'')],
          returned = Inr (JObj [(''success'', JBool True), (''sessionId'', JNull),
                                (''limitReached'', JBool False), (''messageCount'', JNum 0),
                                (''toolUseCount'', JNum 0)])\<rparr>"
    by (simp add: run_defs Let_def)
  from C5_residual_fragment_flushed_raw [OF h1 h2 h3 h4 refl, of example_params "Some 0" None]
    h1 h2 h3 h4 h5
  show ?thesis by blast
qed

section \<open>How the payloads reach the child\<close>

lemma shellCommand_contains_payload:
  "sublist (escapedPrompt p) (shellCommand p) \<and> sublist (escapedSystemPrompt p) (shellCommand p)"
proof
  have "shellCommand p = (claudePath p @ '' '' @ claudeArgs_base p @ '' -p \"'') @ escapedPrompt p
      @ (''\" --append-system-prompt \"'' @ escapedSystemPrompt p @ ''\"'' @ '' | jq -c .'')"
    by (simp add: shellCommand_def claudeArgs_def)
  then show "sublist (escapedPrompt p) (shellCommand p)"
    unfolding sublist_def by blast
  have "shellCommand p = (claudePath p @ '' '' @ claudeArgs_base p @ '' -p \"'' @ escapedPrompt p
      @ ''\" --append-system-prompt \"'') @ escapedSystemPrompt p @ (''\"'' @ '' | jq -c .'')"
    by (simp add: shellCommand_def claudeArgs_def)
  then show "sublist (escapedSystemPrompt p) (shellCommand p)"
    unfolding sublist_def by blast
qed

text \<open>
  In the command-stream file the command line is the same for all payloads, which reach the
  child through the two files written before.
\<close>

lemma fullClaudeCommand_ignores_payload:
  "fullClaudeCommand rt (p\<lparr>prompt := a, systemPrompt := b, escapedPrompt := c,
       escapedSystemPrompt := d\<rparr>) = fullClaudeCommand rt p"
  by (simp add: fullClaudeCommand_def claudeArgs_cs_def claudeArgs_base_def promptFile_def
      systemPromptFile_def)

lemma written_files_hold_payload:
  "map snd (written_files rt p) = [prompt p, systemPrompt p]"
  by (simp add: written_files_def)

text \<open>
  C1, in the spawn file. The string run by \<^verbatim>\<open>sh -c\<close> is built by interpolating
  \<^verbatim>\<open>escapedPrompt\<close> and \<^verbatim>\<open>escapedSystemPrompt\<close> between double quotes; the function neither
  escapes nor checks them. With a payload that holds a double quote and semicolons the string
  reads as three commands.
\<close>

theorem C1_payload_in_shell_command:
  "spawn_args (example_params\<lparr>escapedPrompt := ''x\"; touch pwned; echo \"''\<rparr>)
     = (''sh'',
        [''-c'',
         ''claude --output-format stream-json --verbose --dangerously-skip-permissions --model sonnet''
           @ '' -p \"x\"; touch pwned; echo \"\" --append-system-prompt \"You solve issues\" | jq -c .''],
        ''/tmp/work'')"
  by (simp add: spawn_args_def shellCommand_def claudeArgs_def claudeArgs_base_def example_params_def)

section \<open>Failures of the child\<close>

text \<open>
  A slip of the spawn file that C2 does not cover either way: a \<^verbatim>\<open>text\<close> event whose text is
  a number makes \<^verbatim>\<open>lastMessage\<close> a number, and after a non-zero exit
  \<^verbatim>\<open>lastMessage.includes\<close> throws past the function.
\<close>

lemma includes_on_a_number_throws:
  "executeClaudeCommand example_runtime example_params
     (Closed [Stdout ''{\"type\":\"text\",\"text\":5}\<newline>''] (Some 1) None)
     = \<lparr>trace = [LogStream ''claude'' (JNum 5)], returned = Inl TypeError\<rparr>"
  by (simp add: run_defs Let_def)

text \<open>
  C2, as stated, fails on the command-stream file: without \<^verbatim>\<open>$\<close> the function throws, and
  with \<^verbatim>\<open>$\<close> in place it throws when a prompt file cannot be written.
\<close>

theorem C2_missing_dollar_throws_counterexample:
  "returned (executeClaudeCommand_cs example_runtime (example_params_cs DollarMissing)
      \<lparr>write_error = None, create_error = None, stream = Awaitable (Resolved (Some 0) [] [])\<rparr>)
     = Inl (Error ''Command stream ($) is not available'')
   \<and> returned (executeClaudeCommand_cs example_runtime (example_params_cs DollarFunction)
      \<lparr>write_error = Some ''ENOENT: no such file or directory'', create_error = None,
       stream = Awaitable (Resolved (Some 0) [] [])\<rparr>)
     = Inl (Error ''ENOENT: no such file or directory'')"
  by (simp add: executeClaudeCommand_cs_def example_params_cs_def params.defs)

lemma classify_failure_JStr:
  "lastMessage st = JStr s \<Longrightarrow> \<exists>st'. classify_failure code sig st = Inr st'"
  by (simp add: classify_failure_def includes_any_JStr Let_def)

lemma string_lastMessage_returns:
  assumes "lastMessage st = JStr s"
  shows "\<exists>r. returned (after_command code sig st) = Inr r"
proof (cases "code = Some 0")
  case True
  then show ?thesis by (simp add: after_command_def)
next
  case False
  from classify_failure_JStr [OF assms] obtain st' where
    "classify_failure code sig st = Inr st'" by blast
  with False show ?thesis by (simp add: after_command_def)
qed

text \<open>
  C2, amended. In the spawn file a child that fails to start is caught and becomes a returned
  object with \<^verbatim>\<open>success: false\<close>, and after the child has closed an object is returned whenever
  the \<^verbatim>\<open>lastMessage\<close> that the classification reads is a string. In the command-stream file,
  once the prompt files are written, \<^verbatim>\<open>$\<close> is a function and the command stream is created, every
  failure on the awaitable path is caught, so that an object is returned, with
  \<^verbatim>\<open>success: false\<close> when the command was rejected; but the function throws an \<^verbatim>\<open>Error\<close> to its
  caller when a prompt file cannot be written, when \<^verbatim>\<open>$\<close> is missing or no function, or when
  creating the command stream fails.
\<close>

theorem C2_failures_caught_or_thrown:
  "returned_field (executeClaudeCommand rt p (SpawnError msg)) ''success'' = Some (JBool False)
   \<and> (lastMessage st = JStr s \<longrightarrow> (\<exists>r. returned (after_command code sig st) = Inr r))
   \<and> (write_error env = None \<and> dollar q = DollarFunction \<and> create_error env = None
          \<and> stream env = Awaitable a
        \<longrightarrow> (\<exists>r. returned (executeClaudeCommand_cs rt q env) = Inr r))
   \<and> (write_error env = None \<and> dollar q = DollarFunction \<and> create_error env = None
          \<and> stream env = Awaitable (Rejected why)
        \<longrightarrow> returned_field (executeClaudeCommand_cs rt q env) ''success'' = Some (JBool False))
   \<and> (write_error env \<noteq> None \<or> dollar q \<noteq> DollarFunction \<or> create_error env \<noteq> None
        \<longrightarrow> (\<exists>text. returned (executeClaudeCommand_cs rt q env) = Inl (Error text)))"
proof -
  have "returned_field (executeClaudeCommand rt p (SpawnError msg)) ''success'' = Some (JBool False)"
    by (simp add: executeClaudeCommand_def returned_field_def)
  moreover have "lastMessage st = JStr s \<longrightarrow> (\<exists>r. returned (after_command code sig st) = Inr r)"
    using string_lastMessage_returns by blast
  moreover have "write_error env = None \<and> dollar q = DollarFunction \<and> create_error env = None
          \<and> stream env = Awaitable a
        \<longrightarrow> (\<exists>r. returned (executeClaudeCommand_cs rt q env) = Inr r)"
    by (simp add: executeClaudeCommand_cs_def Let_def)
  moreover have "write_error env = None \<and> dollar q = DollarFunction \<and> create_error env = None
          \<and> stream env = Awaitable (Rejected why)
        \<longrightarrow> returned_field (executeClaudeCommand_cs rt q env) ''success'' = Some (JBool False)"
    by (simp add: executeClaudeCommand_cs_def returned_field_def Let_def exec_failed_def)
  moreover have "write_error env \<noteq> None \<or> dollar q \<noteq> DollarFunction \<or> create_error env \<noteq> None
        \<longrightarrow> (\<exists>text. returned (executeClaudeCommand_cs rt q env) = Inl (Error text))"
    by (auto simp: executeClaudeCommand_cs_def split: option.splits)
  ultimately show ?thesis by blast
qed

theorem C2_failures_witness:
  "returned_field (executeClaudeCommand example_runtime example_params (SpawnError ''spawn sh ENOENT''))
      ''success'' = Some (JBool False)
   \<and> lastMessage (initial\<lparr>lastMessage := JStr ''rate limit''\<rparr>) = JStr ''rate limit''
   \<and> (\<exists>r. returned (after_command (Some 1) None (initial\<lparr>lastMessage := JStr ''rate limit''\<rparr>))
          = Inr r)
   \<and> returned_field (executeClaudeCommand_cs example_runtime (example_params_cs DollarFunction)
        \<lparr>write_error = None, create_error = None, stream = Awaitable (Rejected ''killed'')\<rparr>)
        ''success'' = Some (JBool False)
   \<and> (\<exists>text. returned (executeClaudeCommand_cs example_runtime (example_params_cs DollarFunction)
        \<lparr>write_error = Some ''ENOENT: no such file or directory'', create_error = None,
         stream = Awaitable (Rejected ''killed'')\<rparr>) = Inl (Error text))
   \<and> (\<exists>text. returned (executeClaudeCommand_cs example_runtime (example_params_cs DollarNotFunction)
        \<lparr>write_error = None, create_error = None, stream = Awaitable (Rejected ''killed'')\<rparr>)
          = Inl (Error text))
   \<and> (\<exists>text. returned (executeClaudeCommand_cs example_runtime (example_params_cs DollarFunction)
        \<lparr>write_error = None, create_error = Some ''which: not found'',
         stream = Awaitable (Rejected ''killed'')\<rparr>) = Inl (Error text))"
proof -
  have d: "dollar (example_params_cs DollarFunction) = DollarFunction"
    "dollar (example_params_cs DollarNotFunction) \<noteq> DollarFunction"
    by (simp_all add: example_params_cs_def params.defs)
  have l: "lastMessage (initial\<lparr>lastMessage := JStr ''rate limit''\<rparr>) = JStr ''rate limit''"
    by simp
  show ?thesis
    using d l
      C2_failures_caught_or_thrown [of example_runtime example_params "''spawn sh ENOENT''"
        "initial\<lparr>lastMessage := JStr ''rate limit''\<rparr>" "''rate limit''" "Some 1" None
        "\<lparr>write_error = None, create_error = None, stream = Awaitable (Rejected ''killed'')\<rparr>"
        "example_params_cs DollarFunction" "Rejected ''killed''" "''killed''"]
      C2_failures_caught_or_thrown [of example_runtime example_params "''killed''" _ _ _ _
        "\<lparr>write_error = Some ''ENOENT: no such file or directory'', create_error = None,
          stream = Awaitable (Rejected ''killed'')\<rparr>"
        "example_params_cs DollarFunction" "Rejected ''killed''" "''killed''"]
      C2_failures_caught_or_thrown [of example_runtime example_params "''killed''" _ _ _ _
        "\<lparr>write_error = None, create_error = None, stream = Awaitable (Rejected ''killed'')\<rparr>"
        "example_params_cs DollarNotFunction" "Rejected ''killed''" "''killed''"]
      C2_failures_caught_or_thrown [of example_runtime example_params "''killed''" _ _ _ _
        "\<lparr>write_error = None, create_error = Some ''which: not found'',
          stream = Awaitable (Rejected ''killed'')\<rparr>"
        "example_params_cs DollarFunction" "Rejected ''killed''" "''killed''"]
    by simp
qed

end
